theory Spec2Isabelle
  imports Complex_Main "HOL-Library.Word"
begin

section \<open>JavaScript strings\<close>

text \<open>
  A JavaScript string is a sequence of 16-bit code units; \<open>length\<close> counts code units and
  \<open>===\<close> on strings is equality of the sequences.  A literal of the source is written
  \<open>lit ''...''\<close>.
\<close>

type_synonym code_unit = "16 word"
type_synonym js_string = "code_unit list"

definition lit :: "string \<Rightarrow> js_string" where
  "lit s = map of_char s"

text \<open>
  The code units that \<open>String.prototype.trim\<close> strips: the WhiteSpace and LineTerminator
  productions of ECMAScript (all of them lie in the basic plane).
\<close>

definition isWhiteSpace :: "code_unit \<Rightarrow> bool" where
  "isWhiteSpace c \<longleftrightarrow>
     c \<in> {0x0009, 0x000A, 0x000B, 0x000C, 0x000D, 0x0020, 0x00A0, 0x1680,
          0x2000, 0x2001, 0x2002, 0x2003, 0x2004, 0x2005, 0x2006, 0x2007, 0x2008, 0x2009, 0x200A,
          0x2028, 0x2029, 0x202F, 0x205F, 0x3000, 0xFEFF}"

definition trim :: "js_string \<Rightarrow> js_string" where
  "trim s = rev (dropWhile isWhiteSpace (rev (dropWhile isWhiteSpace s)))"

text \<open>Truthiness of a string: every string but the empty one.\<close>

definition truthy :: "js_string \<Rightarrow> bool" where
  "truthy s \<longleftrightarrow> s \<noteq> []"

text \<open>Decimal rendering of an integer, as a template literal renders an integral number.\<close>

fun show_nat :: "nat \<Rightarrow> js_string" where
  "show_nat n =
     (if n < 10 then [48 + of_nat n]
      else show_nat (n div 10) @ [48 + of_nat (n mod 10)])"

declare show_nat.simps [simp del]

definition show_int :: "int \<Rightarrow> js_string" where
  "show_int i = (if i < 0 then lit ''-'' @ show_nat (nat (- i)) else show_nat (nat i))"

text \<open>
  What a \<open>throw\<close> can carry: an \<open>Error\<close> object with its message, or any other value
  (the \<open>catch\<close> blocks of the hooks test \<open>err instanceof Error\<close>).
\<close>

datatype js_thrown = Error js_string | NonError


section \<open>Data model (the interfaces of the types module)\<close>

record address =
  address_id :: js_string
  street :: js_string
  city :: js_string
  address_state :: js_string
  zipCode :: js_string
  country :: js_string

text \<open>
  \<open>user_updatedAt\<close> is not a field of the interface \<open>User\<close>: \<open>updateProfile\<close> of the mock
  API adds it to the object it returns, and \<open>setUser\<close> stores that object as it is.
\<close>

record user =
  user_id :: js_string
  user_name :: js_string
  email :: js_string
  phone :: "js_string option"
  company :: "js_string option"
  twoFactorEnabled :: bool
  billingAddress :: "address option"
  legalAddress :: "address option"
  user_updatedAt :: "js_string option"

datatype service_type = Type_domain | Type_hosting | Type_email | Type_ssl | Type_other

datatype service_status = Svc_active | Svc_expired | Svc_suspended | Svc_pending

text \<open>
  The fields of \<open>Service\<close>, with the two fields of \<open>Domain\<close> that the mock data fills in
  (\<open>nameservers\<close>, \<open>locked\<close>). \<open>resourceUsage\<close>, \<open>dnsRecords\<close> and \<open>eppCode\<close> are never
  written by this code base and are left to the record's extension slot.
\<close>

record service =
  service_id :: js_string
  service_type :: service_type
  service_name :: js_string
  service_status :: service_status
  expiryDate :: js_string
  autoRenew :: bool
  planDetails :: "js_string option"
  nameservers :: "js_string list option"
  locked :: "bool option"

datatype dns_type = Dns_A | Dns_AAAA | Dns_CNAME | Dns_MX | Dns_TXT | Dns_NS

record dns_record =
  dns_id :: js_string
  dns_type :: dns_type
  dns_name :: js_string
  dns_value :: js_string
  ttl :: int

datatype sender = Sender_user | Sender_support

record ticket_message =
  msg_id :: js_string
  sender :: sender
  message :: js_string
  msg_timestamp :: js_string

datatype ticket_status = Open | In_progress | Resolved | Closed

datatype ticket_priority = Low | Medium | High | Urgent

record support_ticket =
  ticket_id :: js_string
  category :: js_string
  subject :: js_string
  body :: js_string
  ticket_status :: ticket_status
  priority :: ticket_priority
  createdAt :: js_string
  updatedAt :: js_string
  messages :: "ticket_message list"
  attachments :: "js_string list option"

datatype invoice_status = Inv_paid | Inv_pending | Inv_overdue | Inv_draft

record invoice =
  invoice_id :: js_string
  invoice_number :: js_string
  amount :: real
  currency :: js_string
  invoice_status :: invoice_status
  issuedDate :: js_string
  dueDate :: js_string
  pdfUrl :: js_string
  invoice_services :: "js_string list"

datatype notification_type =
  Ntf_renewal | Ntf_payment | Ntf_security | Ntf_system | Ntf_promotional

record notification =
  notification_id :: js_string
  notification_type :: notification_type
  title :: js_string
  notification_message :: js_string
  read :: bool
  timestamp :: js_string
  actionUrl :: "js_string option"

datatype payment_type = Credit_card | Bank_account | Paypal

record payment_method =
  payment_id :: js_string
  payment_type :: payment_type
  last4 :: "js_string option"
  brand :: "js_string option"
  expiryMonth :: "int option"
  expiryYear :: "int option"
  isDefault :: bool


section \<open>The global store (AppContext)\<close>

record AppState =
  currentUser :: "user option"
  notifications :: "notification list"
  unreadNotificationCount :: nat
  services :: "service list"
  supportTickets :: "support_ticket list"
  loading :: bool
  error :: "js_string option"

datatype AppAction =
    SET_USER user
  | CLEAR_USER
  | SET_NOTIFICATIONS "notification list"
  | ADD_NOTIFICATION notification
  | MARK_NOTIFICATION_READ js_string
  | SET_SERVICES "service list"
  | UPDATE_SERVICE service
  | SET_SUPPORT_TICKETS "support_ticket list"
  | ADD_SUPPORT_TICKET support_ticket
  | UPDATE_SUPPORT_TICKET support_ticket
  | SET_LOADING bool
  | SET_ERROR "js_string option"

definition initialState :: AppState where
  "initialState =
     \<lparr>currentUser = None, notifications = [], unreadNotificationCount = 0, services = [],
      supportTickets = [], loading = False, error = None\<rparr>"

fun appReducer :: "AppState \<Rightarrow> AppAction \<Rightarrow> AppState" where
  "appReducer state (SET_USER payload) = state\<lparr>currentUser := Some payload\<rparr>"
| "appReducer state CLEAR_USER = state\<lparr>currentUser := None\<rparr>"
| "appReducer state (SET_NOTIFICATIONS payload) =
     state\<lparr>notifications := payload,
           unreadNotificationCount := length (filter (\<lambda>n. \<not> read n) payload)\<rparr>"
| "appReducer state (ADD_NOTIFICATION payload) =
     (let newNotifications = payload # notifications state
      in state\<lparr>notifications := newNotifications,
               unreadNotificationCount := length (filter (\<lambda>n. \<not> read n) newNotifications)\<rparr>)"
| "appReducer state (MARK_NOTIFICATION_READ payload) =
     (let updatedNotifications =
            map (\<lambda>n. if notification_id n = payload then n\<lparr>read := True\<rparr> else n)
              (notifications state)
      in state\<lparr>notifications := updatedNotifications,
               unreadNotificationCount :=
                 length (filter (\<lambda>n. \<not> read n) updatedNotifications)\<rparr>)"
| "appReducer state (SET_SERVICES payload) = state\<lparr>services := payload\<rparr>"
| "appReducer state (UPDATE_SERVICE payload) =
     state\<lparr>services :=
             map (\<lambda>s. if service_id s = service_id payload then payload else s) (services state)\<rparr>"
| "appReducer state (SET_SUPPORT_TICKETS payload) = state\<lparr>supportTickets := payload\<rparr>"
| "appReducer state (ADD_SUPPORT_TICKET payload) =
     state\<lparr>supportTickets := payload # supportTickets state\<rparr>"
| "appReducer state (UPDATE_SUPPORT_TICKET payload) =
     state\<lparr>supportTickets :=
             map (\<lambda>t. if ticket_id t = ticket_id payload then payload else t)
               (supportTickets state)\<rparr>"
| "appReducer state (SET_LOADING payload) = state\<lparr>loading := payload\<rparr>"
| "appReducer state (SET_ERROR payload) = state\<lparr>error := payload\<rparr>"

text \<open>The invariant of the store: the cached count is the number of unread notifications.\<close>

definition unread_invariant :: "AppState \<Rightarrow> bool" where
  "unread_invariant state \<longleftrightarrow>
     unreadNotificationCount state = length (filter (\<lambda>n. \<not> read n) (notifications state))"


subsection \<open>The helper functions of AppProvider\<close>

text \<open>
  Each helper dispatches to the reducer. The identifiers drawn from \<open>Math.random()\<close> and the
  instants read from \<open>new Date()\<close> are inputs of the model (\<open>rid\<close>, \<open>now\<close>, ...).
\<close>

definition setUser :: "user \<Rightarrow> AppState \<Rightarrow> AppState" where
  "setUser u st = appReducer st (SET_USER u)"

definition logout :: "AppState \<Rightarrow> AppState" where
  "logout st =
     appReducer (appReducer (appReducer (appReducer st CLEAR_USER) (SET_NOTIFICATIONS []))
       (SET_SERVICES [])) (SET_SUPPORT_TICKETS [])"

definition addNotification :: "js_string \<Rightarrow> js_string \<Rightarrow> notification \<Rightarrow> AppState \<Rightarrow> AppState" where
  "addNotification rid now n st =
     appReducer st (ADD_NOTIFICATION (n\<lparr>notification_id := rid, timestamp := now\<rparr>))"

definition markNotificationRead :: "js_string \<Rightarrow> AppState \<Rightarrow> AppState" where
  "markNotificationRead i st = appReducer st (MARK_NOTIFICATION_READ i)"

definition updateService :: "service \<Rightarrow> AppState \<Rightarrow> AppState" where
  "updateService sv st = appReducer st (UPDATE_SERVICE sv)"

definition addSupportTicket ::
  "js_string \<Rightarrow> js_string \<Rightarrow> js_string \<Rightarrow> support_ticket \<Rightarrow> AppState \<Rightarrow> AppState" where
  "addSupportTicket rid now1 now2 t st =
     appReducer st
       (ADD_SUPPORT_TICKET (t\<lparr>ticket_id := rid, createdAt := now1, updatedAt := now2\<rparr>))"


section \<open>The form field (FormField)\<close>

text \<open>
  The rule bounds are numbers in the source; they are compared with string lengths and are
  modelled as integers. A pattern is a \<open>RegExp\<close>, of which the component only uses \<open>test\<close>:
  it is modelled by that predicate (a pattern with the global or sticky flag, whose \<open>test\<close>
  depends on the previous match, is left out). A custom rule returns a message or \<open>null\<close>.
\<close>

record validationRules =
  required :: "bool option"
  minLength :: "int option"
  maxLength :: "int option"
  pattern :: "(js_string \<Rightarrow> bool) option"
  custom :: "(js_string \<Rightarrow> js_string option) option"

text \<open>The props the component reads; \<open>externalError\<close> is the prop \<open>error\<close>.\<close>

record FormFieldProps =
  name :: js_string
  label :: "js_string option"
  rules :: "validationRules option"
  externalError :: "js_string option"

text \<open>\<open>inputProps.label || name\<close>\<close>

definition labelOrName :: "FormFieldProps \<Rightarrow> js_string" where
  "labelOrName props =
     (case label props of Some l \<Rightarrow> if truthy l then l else name props | None \<Rightarrow> name props)"

text \<open>
  The five checks of \<open>validate\<close>, in the order of the source. Each gives \<open>Some\<close> message when
  its \<open>if\<close> statement returns, \<open>None\<close> when control falls through to the next statement.
\<close>

definition check_required :: "FormFieldProps \<Rightarrow> validationRules \<Rightarrow> js_string \<Rightarrow> js_string option" where
  "check_required props vr inputValue =
     (if required vr = Some True \<and> \<not> truthy (trim inputValue)
      then Some (labelOrName props @ lit '' is required'') else None)"

definition check_minLength :: "FormFieldProps \<Rightarrow> validationRules \<Rightarrow> js_string \<Rightarrow> js_string option" where
  "check_minLength props vr inputValue =
     (case minLength vr of
        None \<Rightarrow> None
      | Some m \<Rightarrow>
          if m \<noteq> 0 \<and> int (length inputValue) < m
          then Some (labelOrName props @ lit '' must be at least '' @ show_int m
                       @ lit '' characters'')
          else None)"

definition check_maxLength :: "FormFieldProps \<Rightarrow> validationRules \<Rightarrow> js_string \<Rightarrow> js_string option" where
  "check_maxLength props vr inputValue =
     (case maxLength vr of
        None \<Rightarrow> None
      | Some m \<Rightarrow>
          if m \<noteq> 0 \<and> int (length inputValue) > m
          then Some (labelOrName props @ lit '' must be no more than '' @ show_int m
                       @ lit '' characters'')
          else None)"

definition check_pattern :: "FormFieldProps \<Rightarrow> validationRules \<Rightarrow> js_string \<Rightarrow> js_string option" where
  "check_pattern props vr inputValue =
     (case pattern vr of
        None \<Rightarrow> None
      | Some test \<Rightarrow>
          if truthy inputValue \<and> \<not> test inputValue
          then Some (labelOrName props @ lit '' format is invalid'') else None)"

definition check_custom :: "validationRules \<Rightarrow> js_string \<Rightarrow> js_string option" where
  "check_custom vr inputValue =
     (case custom vr of
        None \<Rightarrow> None
      | Some f \<Rightarrow>
          (case f inputValue of
             None \<Rightarrow> None
           | Some customError \<Rightarrow> if truthy customError then Some customError else None))"

definition validate :: "FormFieldProps \<Rightarrow> js_string \<Rightarrow> js_string" where
  "validate props inputValue =
     (case rules props of
        None \<Rightarrow> []
      | Some vr \<Rightarrow>
          (case check_required props vr inputValue of Some e \<Rightarrow> e | None \<Rightarrow>
          (case check_minLength props vr inputValue of Some e \<Rightarrow> e | None \<Rightarrow>
          (case check_maxLength props vr inputValue of Some e \<Rightarrow> e | None \<Rightarrow>
          (case check_pattern props vr inputValue of Some e \<Rightarrow> e | None \<Rightarrow>
          (case check_custom vr inputValue of Some e \<Rightarrow> e | None \<Rightarrow> []))))))"

text \<open>The two state variables of the component, both set by \<open>useState\<close>.\<close>

record FormFieldState =
  internalError :: js_string
  touched :: bool

definition initialField :: FormFieldState where
  "initialField = \<lparr>internalError = [], touched = False\<rparr>"

text \<open>
  \<open>handleChange\<close> also calls the parent's \<open>onChange\<close>, which owns the value; the component's
  own state changes as below. \<open>handleBlur\<close> validates the value prop of the current render.
\<close>

definition handleChange :: "FormFieldProps \<Rightarrow> js_string \<Rightarrow> FormFieldState \<Rightarrow> FormFieldState" where
  "handleChange props newValue fs =
     (if touched fs then fs\<lparr>internalError := validate props newValue\<rparr> else fs)"

definition handleBlur :: "FormFieldProps \<Rightarrow> js_string \<Rightarrow> FormFieldState \<Rightarrow> FormFieldState" where
  "handleBlur props fieldValue fs =
     fs\<lparr>touched := True, internalError := validate props fieldValue\<rparr>"

text \<open>\<open>externalError || (touched ? internalError : '')\<close>, the error handed to the input.\<close>

definition currentError :: "FormFieldProps \<Rightarrow> FormFieldState \<Rightarrow> js_string" where
  "currentError props fs =
     (case externalError props of
        Some e \<Rightarrow> if truthy e then e else (if touched fs then internalError fs else [])
      | None \<Rightarrow> (if touched fs then internalError fs else []))"

definition isSuccess :: "FormFieldProps \<Rightarrow> js_string \<Rightarrow> FormFieldState \<Rightarrow> bool" where
  "isSuccess props fieldValue fs \<longleftrightarrow>
     touched fs \<and> \<not> truthy (currentError props fs) \<and> length fieldValue > 0"

text \<open>
  The events the input raises: a change to a new value, or a blur while the value prop is the
  given string. \<open>run_field\<close> applies a sequence of events, oldest first.
\<close>

datatype field_event = Change js_string | Blur js_string

fun field_step :: "FormFieldProps \<Rightarrow> FormFieldState \<Rightarrow> field_event \<Rightarrow> FormFieldState" where
  "field_step props fs (Change newValue) = handleChange props newValue fs"
| "field_step props fs (Blur fieldValue) = handleBlur props fieldValue fs"

definition run_field :: "FormFieldProps \<Rightarrow> field_event list \<Rightarrow> FormFieldState" where
  "run_field props evs = foldl (field_step props) initialField evs"

fun is_blur :: "field_event \<Rightarrow> bool" where
  "is_blur (Blur v) = True"
| "is_blur (Change v) = False"


section \<open>The login page\<close>

text \<open>
  The state of the page (form data, loading flag, error banner), and around it the store and
  the current route, which \<open>handleLogin\<close> changes through \<open>setUser\<close> and \<open>navigate\<close>.
\<close>

record LoginState =
  formData_email :: js_string
  formData_password :: js_string
  login_loading :: bool
  login_error :: js_string

record LoginWorld =
  page :: LoginState
  store :: AppState
  route :: js_string

definition mockUser :: user where
  "mockUser =
     \<lparr>user_id = lit ''1'', user_name = lit ''John Doe'', email = lit ''john.doe@example.com'',
      phone = Some (lit ''+1 (555) 123-4567''), company = Some (lit ''Example Corp''),
      twoFactorEnabled = True,
      billingAddress =
        Some \<lparr>address_id = lit ''1'', street = lit ''123 Main St'', city = lit ''New York'',
              address_state = lit ''NY'', zipCode = lit ''10001'', country = lit ''US''\<rparr>,
      legalAddress = None, user_updatedAt = None\<rparr>"

definition handleFieldChange :: "js_string \<Rightarrow> js_string \<Rightarrow> LoginState \<Rightarrow> LoginState" where
  "handleFieldChange field newValue ls =
     (let ls1 = (if field = lit ''email'' then ls\<lparr>formData_email := newValue\<rparr>
                 else if field = lit ''password'' then ls\<lparr>formData_password := newValue\<rparr>
                 else ls)
      in if truthy (login_error ls) then ls1\<lparr>login_error := []\<rparr> else ls1)"

text \<open>
  Nothing in the \<open>try\<close> block of \<open>handleLogin\<close> throws (the awaited promise always resolves),
  so its \<open>catch\<close> branch has no counterpart here; \<open>finally\<close> clears the loading flag.
\<close>

definition handleLogin :: "LoginWorld \<Rightarrow> LoginWorld" where
  "handleLogin w =
     (let w1 = w\<lparr>page := (page w)\<lparr>login_loading := True, login_error := []\<rparr>\<rparr>;
          w2 = (if formData_email (page w1) = lit ''john.doe@example.com''
                   \<and> formData_password (page w1) = lit ''password123''
                then w1\<lparr>store := setUser mockUser (store w1), route := lit ''/dashboard''\<rparr>
                else w1\<lparr>page := (page w1)
                        \<lparr>login_error := lit ''Invalid email or password. Please try again.''\<rparr>\<rparr>)
      in w2\<lparr>page := (page w2)\<lparr>login_loading := False\<rparr>\<rparr>)"

text \<open>The sign-in button is disabled while either field is empty.\<close>

definition signIn_disabled :: "LoginState \<Rightarrow> bool" where
  "signIn_disabled ls \<longleftrightarrow> \<not> truthy (formData_email ls) \<or> \<not> truthy (formData_password ls)"


section \<open>The mock API client\<close>

text \<open>
  A call either resolves with a value (\<open>Inr\<close>) or rejects with what was thrown (\<open>Inl\<close>). The
  artificial delay of \<open>simulateRequest\<close> and \<open>simulateError\<close> changes no value and is not
  modelled.
\<close>

definition simulateRequest :: "'a \<Rightarrow> js_thrown + 'a" where
  "simulateRequest x = Inr x"

definition simulateError :: "js_string \<Rightarrow> js_thrown + 'a" where
  "simulateError msg = Inl (Error msg)"

text \<open>
  \<open>Math.random() < chance\<close>; the draw of \<open>Math.random()\<close>, a number in \<open>[0, 1)\<close>, is an input.
  The default \<open>0.1\<close> and the \<open>0.05\<close> of \<open>login\<close> are the doubles these literals denote.
\<close>

definition shouldSimulateError :: "real \<Rightarrow> real \<Rightarrow> bool" where
  "shouldSimulateError chance draw \<longleftrightarrow> draw < chance"

definition default_chance :: real where
  "default_chance = 3602879701896397 / 36028797018963968"

definition login_chance :: real where
  "login_chance = 3602879701896397 / 72057594037927936"

text \<open>
  The objects the endpoints resolve with. Most carry \<open>success\<close> and \<open>data\<close>, some also a
  \<open>message\<close>; \<open>logout\<close> resolves with \<open>success\<close> and \<open>message\<close> only, and a rejected login with
  \<open>success\<close>, \<open>message\<close> and \<open>errors\<close>.
\<close>

record 'a response =
  success :: bool
  data :: 'a
  response_message :: "js_string option"

record failure_response =
  failure_success :: bool
  failure_message :: js_string
  errors :: "js_string list"

record logout_response =
  logout_success :: bool
  logout_message :: js_string

record login_data =
  token :: js_string
  login_user :: user

datatype login_response = Login_data "login_data response" | Login_failure failure_response

record autoRenew_data =
  autoRenew_id :: js_string
  autoRenew_value :: bool
  autoRenew_updatedAt :: js_string

record read_data =
  read_id :: js_string
  read_value :: bool

text \<open>
  The argument of \<open>createSupportTicket\<close> is declared \<open>any\<close>; the one caller, the hook
  \<open>createTicket\<close>, passes a ticket without \<open>id\<close>, \<open>createdAt\<close>, \<open>updatedAt\<close> and \<open>messages\<close>,
  and the form behind it leaves \<open>status\<close> out as well.
\<close>

record ticketData =
  td_category :: js_string
  td_subject :: js_string
  td_body :: js_string
  td_status :: "ticket_status option"
  td_priority :: "ticket_priority option"
  td_attachments :: "js_string list option"

subsection \<open>The canned payloads\<close>

definition login_payload_user :: user where
  "login_payload_user =
     \<lparr>user_id = lit ''1'', user_name = lit ''John Doe'', email = lit ''john.doe@example.com'',
      phone = Some (lit ''+1 (555) 123-4567''), company = Some (lit ''Example Corp''),
      twoFactorEnabled = True, billingAddress = None, legalAddress = None,
      user_updatedAt = None\<rparr>"

definition profile_payload :: user where
  "profile_payload =
     \<lparr>user_id = lit ''1'', user_name = lit ''John Doe'', email = lit ''john.doe@example.com'',
      phone = Some (lit ''+1 (555) 123-4567''), company = Some (lit ''Example Corp''),
      twoFactorEnabled = True,
      billingAddress =
        Some \<lparr>address_id = lit ''1'', street = lit ''123 Main St'', city = lit ''New York'',
              address_state = lit ''NY'', zipCode = lit ''10001'', country = lit ''US''\<rparr>,
      legalAddress =
        Some \<lparr>address_id = lit ''2'', street = lit ''123 Main St'', city = lit ''New York'',
              address_state = lit ''NY'', zipCode = lit ''10001'', country = lit ''US''\<rparr>,
      user_updatedAt = None\<rparr>"

definition services_payload :: "service list" where
  "services_payload =
     [\<lparr>service_id = lit ''1'', service_type = Type_domain, service_name = lit ''example.com'',
       service_status = Svc_active, expiryDate = lit ''2025-12-15T00:00:00Z'', autoRenew = True,
       planDetails = None,
       nameservers = Some [lit ''ns1.example.com'', lit ''ns2.example.com''],
       locked = Some True\<rparr>,
      \<lparr>service_id = lit ''2'', service_type = Type_domain, service_name = lit ''mysite.net'',
       service_status = Svc_active, expiryDate = lit ''2025-09-02T00:00:00Z'', autoRenew = False,
       planDetails = None,
       nameservers = Some [lit ''ns1.provider.com'', lit ''ns2.provider.com''],
       locked = Some False\<rparr>,
      \<lparr>service_id = lit ''3'', service_type = Type_hosting,
       service_name = lit ''Web Hosting Pro'', service_status = Svc_active,
       expiryDate = lit ''2025-08-28T00:00:00Z'', autoRenew = True,
       planDetails = Some (lit ''Pro Plan - 10GB Storage, Unlimited Bandwidth''),
       nameservers = None, locked = None\<rparr>,
      \<lparr>service_id = lit ''4'', service_type = Type_ssl,
       service_name = lit ''SSL Certificate'', service_status = Svc_active,
       expiryDate = lit ''2025-11-10T00:00:00Z'', autoRenew = True,
       planDetails =
         Some (lit ''Standard SSL - Protects example.com and www.example.com''),
       nameservers = None, locked = None\<rparr>]"

definition tickets_payload :: "support_ticket list" where
  "tickets_payload =
     [\<lparr>ticket_id = lit ''12345'', category = lit ''Technical'',
       subject = lit ''DNS configuration issue'',
       body = lit ''Having trouble configuring DNS records for my domain.'',
       ticket_status = Open, priority = Medium,
       createdAt = lit ''2025-07-24T10:30:00Z'', updatedAt = lit ''2025-07-24T14:15:00Z'',
       messages =
         [\<lparr>msg_id = lit ''1'', sender = Sender_user,
           message = lit ''Having trouble configuring DNS records for my domain.'',
           msg_timestamp = lit ''2025-07-24T10:30:00Z''\<rparr>,
          \<lparr>msg_id = lit ''2'', sender = Sender_support,
           message =
             lit ''Thank you for contacting us. We'll help you with the DNS configuration.'',
           msg_timestamp = lit ''2025-07-24T14:15:00Z''\<rparr>],
       attachments = None\<rparr>,
      \<lparr>ticket_id = lit ''12346'', category = lit ''Billing'',
       subject = lit ''Payment method update'',
       body = lit ''Need to update my credit card information.'',
       ticket_status = Resolved, priority = Low,
       createdAt = lit ''2025-07-22T09:00:00Z'', updatedAt = lit ''2025-07-23T16:30:00Z'',
       messages =
         [\<lparr>msg_id = lit ''3'', sender = Sender_user,
           message = lit ''Need to update my credit card information.'',
           msg_timestamp = lit ''2025-07-22T09:00:00Z''\<rparr>,
          \<lparr>msg_id = lit ''4'', sender = Sender_support,
           message = lit ''I've sent you a secure link to update your payment method.'',
           msg_timestamp = lit ''2025-07-23T16:30:00Z''\<rparr>],
       attachments = None\<rparr>]"

definition notifications_payload :: "notification list" where
  "notifications_payload =
     [\<lparr>notification_id = lit ''1'', notification_type = Ntf_renewal,
       title = lit ''Domain Renewal Reminder'',
       notification_message = lit ''Your domain example.com expires in 21 days'',
       read = False, timestamp = lit ''2025-07-25T08:00:00Z'',
       actionUrl = Some (lit ''/services/domains/1'')\<rparr>,
      \<lparr>notification_id = lit ''2'', notification_type = Ntf_system,
       title = lit ''Support Ticket Update'',
       notification_message = lit ''Your support ticket #12345 has been updated'',
       read = False, timestamp = lit ''2025-07-24T14:15:00Z'',
       actionUrl = Some (lit ''/support/tickets/12345'')\<rparr>,
      \<lparr>notification_id = lit ''3'', notification_type = Ntf_payment,
       title = lit ''Payment Processed'',
       notification_message = lit ''Payment of $89.99 has been processed successfully'',
       read = True, timestamp = lit ''2025-07-20T12:00:00Z'', actionUrl = None\<rparr>]"

definition invoices_payload :: "invoice list" where
  "invoices_payload =
     [\<lparr>invoice_id = lit ''INV-2025-001'', invoice_number = lit ''INV-2025-001'',
       amount = 89.99, currency = lit ''USD'', invoice_status = Inv_paid,
       issuedDate = lit ''2025-07-01T00:00:00Z'', dueDate = lit ''2025-07-15T00:00:00Z'',
       pdfUrl = lit ''/api/invoices/INV-2025-001.pdf'',
       invoice_services = [lit ''example.com - Domain Registration'', lit ''Web Hosting Pro'']\<rparr>,
      \<lparr>invoice_id = lit ''INV-2025-002'', invoice_number = lit ''INV-2025-002'',
       amount = 129.99, currency = lit ''USD'', invoice_status = Inv_pending,
       issuedDate = lit ''2025-07-20T00:00:00Z'', dueDate = lit ''2025-08-05T00:00:00Z'',
       pdfUrl = lit ''/api/invoices/INV-2025-002.pdf'',
       invoice_services = [lit ''SSL Certificate'', lit ''Domain Transfer'']\<rparr>]"

definition paymentMethods_payload :: "payment_method list" where
  "paymentMethods_payload =
     [\<lparr>payment_id = lit ''1'', payment_type = Credit_card, last4 = Some (lit ''4242''),
       brand = Some (lit ''Visa''), expiryMonth = Some 12, expiryYear = Some 2027,
       isDefault = True\<rparr>,
      \<lparr>payment_id = lit ''2'', payment_type = Credit_card, last4 = Some (lit ''5555''),
       brand = Some (lit ''Mastercard''), expiryMonth = Some 8, expiryYear = Some 2026,
       isDefault = False\<rparr>]"

definition dnsRecords_payload :: "dns_record list" where
  "dnsRecords_payload =
     [\<lparr>dns_id = lit ''1'', dns_type = Dns_A, dns_name = lit ''@'',
       dns_value = lit ''192.168.1.1'', ttl = 3600\<rparr>,
      \<lparr>dns_id = lit ''2'', dns_type = Dns_CNAME, dns_name = lit ''www'',
       dns_value = lit ''example.com'', ttl = 3600\<rparr>,
      \<lparr>dns_id = lit ''3'', dns_type = Dns_MX, dns_name = lit ''@'',
       dns_value = lit ''10 mail.example.com'', ttl = 3600\<rparr>]"

subsection \<open>The endpoints\<close>

text \<open>
  Every endpoint that injects failures is given twice: first with the argument of
  \<open>shouldSimulateError\<close> as a parameter (\<open>..._with chance\<close>), then as the source calls it, at
  \<open>0.05\<close> for \<open>login\<close> and at the default elsewhere. The first argument after the chance is
  the draw of \<open>Math.random()\<close>; instants and random identifiers follow where the endpoint
  reads them.
\<close>

definition mockApi_login_with ::
  "real \<Rightarrow> real \<Rightarrow> int \<Rightarrow> js_string \<Rightarrow> js_string \<Rightarrow> js_thrown + login_response" where
  "mockApi_login_with chance draw now_ms em pw =
     (if shouldSimulateError chance draw
      then simulateError (lit ''Network error. Please try again.'')
      else if em = lit ''john.doe@example.com'' \<and> pw = lit ''password123''
      then simulateRequest
             (Login_data
                \<lparr>success = True,
                 data = \<lparr>token = lit ''mock-jwt-token-'' @ show_int now_ms,
                         login_user = login_payload_user\<rparr>,
                 response_message = None\<rparr>)
      else simulateRequest
             (Login_failure
                \<lparr>failure_success = False, failure_message = lit ''Invalid email or password'',
                 errors = [lit ''Invalid credentials'']\<rparr>))"

definition mockApi_login :: "real \<Rightarrow> int \<Rightarrow> js_string \<Rightarrow> js_string \<Rightarrow> js_thrown + login_response" where
  "mockApi_login = mockApi_login_with login_chance"

definition mockApi_logout :: "js_thrown + logout_response" where
  "mockApi_logout =
     simulateRequest \<lparr>logout_success = True, logout_message = lit ''Logged out successfully''\<rparr>"

definition mockApi_getProfile_with :: "real \<Rightarrow> real \<Rightarrow> js_thrown + user response" where
  "mockApi_getProfile_with chance draw =
     (if shouldSimulateError chance draw then simulateError (lit ''Failed to load profile'')
      else simulateRequest
             \<lparr>success = True, data = profile_payload, response_message = None\<rparr>)"

definition mockApi_getProfile :: "real \<Rightarrow> js_thrown + user response" where
  "mockApi_getProfile = mockApi_getProfile_with default_chance"

text \<open>
  \<open>profileData\<close> is declared \<open>any\<close>; the hook stores the returned object as the current user,
  so the model takes it at the type of the store.
\<close>

definition mockApi_updateProfile_with ::
  "real \<Rightarrow> real \<Rightarrow> js_string \<Rightarrow> user \<Rightarrow> js_thrown + user response" where
  "mockApi_updateProfile_with chance draw now profileData =
     (if shouldSimulateError chance draw then simulateError (lit ''Failed to update profile'')
      else simulateRequest
             \<lparr>success = True,
              data = profileData\<lparr>user_id := lit ''1'', user_updatedAt := Some now\<rparr>,
              response_message = Some (lit ''Profile updated successfully'')\<rparr>)"

definition mockApi_updateProfile :: "real \<Rightarrow> js_string \<Rightarrow> user \<Rightarrow> js_thrown + user response" where
  "mockApi_updateProfile = mockApi_updateProfile_with default_chance"

definition mockApi_getServices_with :: "real \<Rightarrow> real \<Rightarrow> js_thrown + service list response" where
  "mockApi_getServices_with chance draw =
     (if shouldSimulateError chance draw then simulateError (lit ''Failed to load services'')
      else simulateRequest
             \<lparr>success = True, data = services_payload, response_message = None\<rparr>)"

definition mockApi_getServices :: "real \<Rightarrow> js_thrown + service list response" where
  "mockApi_getServices = mockApi_getServices_with default_chance"

definition mockApi_toggleAutoRenew_with ::
  "real \<Rightarrow> real \<Rightarrow> js_string \<Rightarrow> js_string \<Rightarrow> bool \<Rightarrow> js_thrown + autoRenew_data response" where
  "mockApi_toggleAutoRenew_with chance draw now serviceId flag =
     (if shouldSimulateError chance draw
      then simulateError (lit ''Failed to update auto-renewal setting'')
      else simulateRequest
             \<lparr>success = True,
              data = \<lparr>autoRenew_id = serviceId, autoRenew_value = flag,
                      autoRenew_updatedAt = now\<rparr>,
              response_message =
                Some (lit ''Auto-renewal '' @ (if flag then lit ''enabled'' else lit ''disabled'')
                        @ lit '' successfully'')\<rparr>)"

definition mockApi_toggleAutoRenew ::
  "real \<Rightarrow> js_string \<Rightarrow> js_string \<Rightarrow> bool \<Rightarrow> js_thrown + autoRenew_data response" where
  "mockApi_toggleAutoRenew = mockApi_toggleAutoRenew_with default_chance"

definition mockApi_getSupportTickets_with ::
  "real \<Rightarrow> real \<Rightarrow> js_thrown + support_ticket list response" where
  "mockApi_getSupportTickets_with chance draw =
     (if shouldSimulateError chance draw
      then simulateError (lit ''Failed to load support tickets'')
      else simulateRequest
             \<lparr>success = True, data = tickets_payload, response_message = None\<rparr>)"

definition mockApi_getSupportTickets :: "real \<Rightarrow> js_thrown + support_ticket list response" where
  "mockApi_getSupportTickets = mockApi_getSupportTickets_with default_chance"

text \<open>
  \<open>rid\<close> is the identifier drawn from \<open>Math.random()\<close>; \<open>now1\<close>, \<open>now2\<close>, \<open>now3\<close> are the
  three readings of the clock, in the order of the object literal.
\<close>

definition mockApi_createSupportTicket_with ::
  "real \<Rightarrow> real \<Rightarrow> js_string \<Rightarrow> js_string \<Rightarrow> js_string \<Rightarrow> js_string \<Rightarrow> ticketData
     \<Rightarrow> js_thrown + support_ticket response" where
  "mockApi_createSupportTicket_with chance draw rid now1 now2 now3 td =
     (if shouldSimulateError chance draw
      then simulateError (lit ''Failed to create support ticket'')
      else
        (let newTicket =
               \<lparr>ticket_id = rid, category = td_category td, subject = td_subject td,
                body = td_body td, ticket_status = Open,
                priority = (case td_priority td of Some p \<Rightarrow> p | None \<Rightarrow> Medium),
                createdAt = now1, updatedAt = now2,
                messages =
                  [\<lparr>msg_id = lit ''1'', sender = Sender_user, message = td_body td,
                    msg_timestamp = now3\<rparr>],
                attachments = td_attachments td\<rparr>
         in simulateRequest
              \<lparr>success = True, data = newTicket,
               response_message = Some (lit ''Support ticket created successfully'')\<rparr>))"

definition mockApi_createSupportTicket ::
  "real \<Rightarrow> js_string \<Rightarrow> js_string \<Rightarrow> js_string \<Rightarrow> js_string \<Rightarrow> ticketData
     \<Rightarrow> js_thrown + support_ticket response" where
  "mockApi_createSupportTicket = mockApi_createSupportTicket_with default_chance"

definition mockApi_getNotifications_with ::
  "real \<Rightarrow> real \<Rightarrow> js_thrown + notification list response" where
  "mockApi_getNotifications_with chance draw =
     (if shouldSimulateError chance draw
      then simulateError (lit ''Failed to load notifications'')
      else simulateRequest
             \<lparr>success = True, data = notifications_payload, response_message = None\<rparr>)"

definition mockApi_getNotifications :: "real \<Rightarrow> js_thrown + notification list response" where
  "mockApi_getNotifications = mockApi_getNotifications_with default_chance"

definition mockApi_markNotificationRead :: "js_string \<Rightarrow> js_thrown + read_data response" where
  "mockApi_markNotificationRead notificationId =
     simulateRequest
       \<lparr>success = True, data = \<lparr>read_id = notificationId, read_value = True\<rparr>,
        response_message = Some (lit ''Notification marked as read'')\<rparr>"

definition mockApi_getInvoices_with :: "real \<Rightarrow> real \<Rightarrow> js_thrown + invoice list response" where
  "mockApi_getInvoices_with chance draw =
     (if shouldSimulateError chance draw then simulateError (lit ''Failed to load invoices'')
      else simulateRequest
             \<lparr>success = True, data = invoices_payload, response_message = None\<rparr>)"

definition mockApi_getInvoices :: "real \<Rightarrow> js_thrown + invoice list response" where
  "mockApi_getInvoices = mockApi_getInvoices_with default_chance"

definition mockApi_getPaymentMethods_with ::
  "real \<Rightarrow> real \<Rightarrow> js_thrown + payment_method list response" where
  "mockApi_getPaymentMethods_with chance draw =
     (if shouldSimulateError chance draw
      then simulateError (lit ''Failed to load payment methods'')
      else simulateRequest
             \<lparr>success = True, data = paymentMethods_payload, response_message = None\<rparr>)"

definition mockApi_getPaymentMethods :: "real \<Rightarrow> js_thrown + payment_method list response" where
  "mockApi_getPaymentMethods = mockApi_getPaymentMethods_with default_chance"

definition mockApi_getDnsRecords_with ::
  "real \<Rightarrow> real \<Rightarrow> js_string \<Rightarrow> js_thrown + dns_record list response" where
  "mockApi_getDnsRecords_with chance draw domainId =
     (if shouldSimulateError chance draw then simulateError (lit ''Failed to load DNS records'')
      else simulateRequest
             \<lparr>success = True, data = dnsRecords_payload, response_message = None\<rparr>)"

definition mockApi_getDnsRecords :: "real \<Rightarrow> js_string \<Rightarrow> js_thrown + dns_record list response" where
  "mockApi_getDnsRecords = mockApi_getDnsRecords_with default_chance"


section \<open>The data-fetching hooks\<close>

text \<open>
  Every hook owns a loading flag and an error string; \<open>useBilling\<close> and \<open>useDNS\<close> also own
  the lists they load. A hook function runs on the pair of its own state and the store.
\<close>

record hook_state =
  hook_loading :: bool
  hook_error :: "js_string option"

record billing_state = hook_state +
  invoices :: "invoice list"
  paymentMethods :: "payment_method list"

record dns_state = hook_state +
  dnsRecords :: "dns_record list"

definition setLoading :: "bool \<Rightarrow> 'h hook_state_scheme \<times> AppState \<Rightarrow> 'h hook_state_scheme \<times> AppState" where
  "setLoading b w = ((fst w)\<lparr>hook_loading := b\<rparr>, snd w)"

definition setError ::
  "js_string option \<Rightarrow> 'h hook_state_scheme \<times> AppState \<Rightarrow> 'h hook_state_scheme \<times> AppState" where
  "setError e w = ((fst w)\<lparr>hook_error := e\<rparr>, snd w)"

definition dispatch :: "AppAction \<Rightarrow> 'h \<times> AppState \<Rightarrow> 'h \<times> AppState" where
  "dispatch a w = (fst w, appReducer (snd w) a)"

text \<open>\<open>err instanceof Error ? err.message : fallback\<close>\<close>

definition errorMessage :: "js_thrown \<Rightarrow> js_string \<Rightarrow> js_string" where
  "errorMessage err fallback = (case err of Error m \<Rightarrow> m | NonError \<Rightarrow> fallback)"

text \<open>
  The body shared by the loading functions, which the source writes out once per hook:
  \<^verbatim>\<open>setLoading(true); setError(null);
  try { const response = await <call>;
        if (response.success) { <onSuccess>(response.data) } else { setError(<fallback>) } }
  catch (err) { setError(err instanceof Error ? err.message : <fallback>) }
  finally { setLoading(false) }\<close>
  The outcome of the awaited call is the argument \<open>result\<close>.
\<close>

definition fetch ::
  "js_string \<Rightarrow> ('a \<Rightarrow> 'h hook_state_scheme \<times> AppState \<Rightarrow> 'h hook_state_scheme \<times> AppState)
     \<Rightarrow> js_thrown + 'a response
     \<Rightarrow> 'h hook_state_scheme \<times> AppState \<Rightarrow> 'h hook_state_scheme \<times> AppState" where
  "fetch fallback onSuccess result w =
     (let w1 = setLoading True w;
          w2 = setError None w1;
          w3 = (case result of
                  Inr response \<Rightarrow>
                    if success response then onSuccess (data response) w2
                    else setError (Some fallback) w2
                | Inl err \<Rightarrow> setError (Some (errorMessage err fallback)) w2)
      in setLoading False w3)"

subsection \<open>useProfile\<close>

definition loadProfile_on ::
  "js_thrown + user response \<Rightarrow> hook_state \<times> AppState \<Rightarrow> hook_state \<times> AppState" where
  "loadProfile_on =
     fetch (lit ''Failed to load profile'') (\<lambda>d w. (fst w, setUser d (snd w)))"

definition loadProfile :: "real \<Rightarrow> hook_state \<times> AppState \<Rightarrow> hook_state \<times> AppState" where
  "loadProfile draw = loadProfile_on (mockApi_getProfile draw)"

text \<open>
  \<open>updateProfile\<close> and \<open>createTicket\<close> also hand the outcome to their caller: the response is
  returned from both branches of the \<open>if\<close>, what was caught is thrown again.
\<close>

definition updateProfile_on ::
  "js_thrown + user response \<Rightarrow> hook_state \<times> AppState
     \<Rightarrow> (js_thrown + user response) \<times> (hook_state \<times> AppState)" where
  "updateProfile_on result w =
     (result,
      fetch (lit ''Failed to update profile'') (\<lambda>d w. (fst w, setUser d (snd w))) result w)"

definition updateProfile ::
  "real \<Rightarrow> js_string \<Rightarrow> user \<Rightarrow> hook_state \<times> AppState
     \<Rightarrow> (js_thrown + user response) \<times> (hook_state \<times> AppState)" where
  "updateProfile draw now profileData =
     updateProfile_on (mockApi_updateProfile draw now profileData)"

subsection \<open>useServices\<close>

definition loadServices_on ::
  "js_thrown + service list response \<Rightarrow> hook_state \<times> AppState \<Rightarrow> hook_state \<times> AppState" where
  "loadServices_on =
     fetch (lit ''Failed to load services'') (\<lambda>d. dispatch (SET_SERVICES d))"

definition loadServices :: "real \<Rightarrow> hook_state \<times> AppState \<Rightarrow> hook_state \<times> AppState" where
  "loadServices draw = loadServices_on (mockApi_getServices draw)"

text \<open>
  \<open>toggleAutoRenew\<close> looks the service up in \<open>state.services\<close> of the render that created the
  function (\<open>rendered\<close>), and dispatches to the store as it is when the call has resolved.
  A response without success is turned into a throw inside the \<open>try\<close> and caught there.
\<close>

definition toggleAutoRenew_on ::
  "js_thrown + autoRenew_data response \<Rightarrow> service list \<Rightarrow> js_string \<Rightarrow> bool
     \<Rightarrow> hook_state \<times> AppState
     \<Rightarrow> (js_thrown + autoRenew_data response) \<times> (hook_state \<times> AppState)" where
  "toggleAutoRenew_on result rendered serviceId flag w =
     (case result of
        Inr response \<Rightarrow>
          if success response
          then (Inr response,
                case find (\<lambda>s. service_id s = serviceId) rendered of
                  Some updatedService \<Rightarrow>
                    dispatch (UPDATE_SERVICE (updatedService\<lparr>autoRenew := flag\<rparr>)) w
                | None \<Rightarrow> w)
          else (Inl (Error (lit ''Failed to update auto-renewal setting'')),
                setError (Some (lit ''Failed to update auto-renewal setting'')) w)
      | Inl err \<Rightarrow>
          (Inl err, setError (Some (errorMessage err (lit ''Failed to update service''))) w))"

definition toggleAutoRenew ::
  "real \<Rightarrow> js_string \<Rightarrow> service list \<Rightarrow> js_string \<Rightarrow> bool \<Rightarrow> hook_state \<times> AppState
     \<Rightarrow> (js_thrown + autoRenew_data response) \<times> (hook_state \<times> AppState)" where
  "toggleAutoRenew draw now rendered serviceId flag =
     toggleAutoRenew_on (mockApi_toggleAutoRenew draw now serviceId flag) rendered serviceId flag"

subsection \<open>useSupportTickets\<close>

definition loadTickets_on ::
  "js_thrown + support_ticket list response \<Rightarrow> hook_state \<times> AppState
     \<Rightarrow> hook_state \<times> AppState" where
  "loadTickets_on =
     fetch (lit ''Failed to load support tickets'') (\<lambda>d. dispatch (SET_SUPPORT_TICKETS d))"

definition loadTickets :: "real \<Rightarrow> hook_state \<times> AppState \<Rightarrow> hook_state \<times> AppState" where
  "loadTickets draw = loadTickets_on (mockApi_getSupportTickets draw)"

text \<open>
  On success \<open>createTicket\<close> passes the ticket of the response to \<open>addSupportTicket\<close>, which
  draws an identifier (\<open>rid'\<close>) and reads the clock twice (\<open>now4\<close>, \<open>now5\<close>) on its own.
\<close>

definition createTicket_on ::
  "js_thrown + support_ticket response \<Rightarrow> js_string \<Rightarrow> js_string \<Rightarrow> js_string
     \<Rightarrow> hook_state \<times> AppState
     \<Rightarrow> (js_thrown + support_ticket response) \<times> (hook_state \<times> AppState)" where
  "createTicket_on result rid' now4 now5 w =
     (result,
      fetch (lit ''Failed to create support ticket'')
        (\<lambda>d w. (fst w, addSupportTicket rid' now4 now5 d (snd w))) result w)"

definition createTicket ::
  "real \<Rightarrow> js_string \<Rightarrow> js_string \<Rightarrow> js_string \<Rightarrow> js_string \<Rightarrow> js_string \<Rightarrow> js_string
     \<Rightarrow> js_string \<Rightarrow> ticketData \<Rightarrow> hook_state \<times> AppState
     \<Rightarrow> (js_thrown + support_ticket response) \<times> (hook_state \<times> AppState)" where
  "createTicket draw rid now1 now2 now3 rid' now4 now5 td =
     createTicket_on (mockApi_createSupportTicket draw rid now1 now2 now3 td) rid' now4 now5"

subsection \<open>useNotifications\<close>

definition loadNotifications_on ::
  "js_thrown + notification list response \<Rightarrow> hook_state \<times> AppState
     \<Rightarrow> hook_state \<times> AppState" where
  "loadNotifications_on =
     fetch (lit ''Failed to load notifications'') (\<lambda>d. dispatch (SET_NOTIFICATIONS d))"

definition loadNotifications :: "real \<Rightarrow> hook_state \<times> AppState \<Rightarrow> hook_state \<times> AppState" where
  "loadNotifications draw = loadNotifications_on (mockApi_getNotifications draw)"

definition markAsRead_on ::
  "js_thrown + read_data response \<Rightarrow> js_string \<Rightarrow> hook_state \<times> AppState
     \<Rightarrow> (js_thrown + read_data response) \<times> (hook_state \<times> AppState)" where
  "markAsRead_on result notificationId w =
     (case result of
        Inr response \<Rightarrow>
          if success response
          then (Inr response, (fst w, markNotificationRead notificationId (snd w)))
          else (Inl (Error (lit ''Failed to mark notification as read'')),
                setError (Some (lit ''Failed to mark notification as read'')) w)
      | Inl err \<Rightarrow>
          (Inl err,
           setError (Some (errorMessage err (lit ''Failed to update notification''))) w))"

definition markAsRead ::
  "js_string \<Rightarrow> hook_state \<times> AppState
     \<Rightarrow> (js_thrown + read_data response) \<times> (hook_state \<times> AppState)" where
  "markAsRead notificationId =
     markAsRead_on (mockApi_markNotificationRead notificationId) notificationId"

subsection \<open>useBilling\<close>

definition loadInvoices_on ::
  "js_thrown + invoice list response \<Rightarrow> billing_state \<times> AppState
     \<Rightarrow> billing_state \<times> AppState" where
  "loadInvoices_on =
     fetch (lit ''Failed to load invoices'') (\<lambda>d w. ((fst w)\<lparr>invoices := d\<rparr>, snd w))"

definition loadInvoices :: "real \<Rightarrow> billing_state \<times> AppState \<Rightarrow> billing_state \<times> AppState" where
  "loadInvoices draw = loadInvoices_on (mockApi_getInvoices draw)"

definition loadPaymentMethods_on ::
  "js_thrown + payment_method list response \<Rightarrow> billing_state \<times> AppState
     \<Rightarrow> billing_state \<times> AppState" where
  "loadPaymentMethods_on =
     fetch (lit ''Failed to load payment methods'')
       (\<lambda>d w. ((fst w)\<lparr>paymentMethods := d\<rparr>, snd w))"

definition loadPaymentMethods ::
  "real \<Rightarrow> billing_state \<times> AppState \<Rightarrow> billing_state \<times> AppState" where
  "loadPaymentMethods draw = loadPaymentMethods_on (mockApi_getPaymentMethods draw)"

subsection \<open>useDNS\<close>

definition loadDnsRecords_on ::
  "js_thrown + dns_record list response \<Rightarrow> dns_state \<times> AppState \<Rightarrow> dns_state \<times> AppState" where
  "loadDnsRecords_on =
     fetch (lit ''Failed to load DNS records'') (\<lambda>d w. ((fst w)\<lparr>dnsRecords := d\<rparr>, snd w))"

definition loadDnsRecords ::
  "real \<Rightarrow> js_string \<Rightarrow> dns_state \<times> AppState \<Rightarrow> dns_state \<times> AppState" where
  "loadDnsRecords draw domainId = loadDnsRecords_on (mockApi_getDnsRecords draw domainId)"

text \<open>A call has failed when it threw or resolved with \<open>success: false\<close>.\<close>

fun failed :: "js_thrown + 'a response \<Rightarrow> bool" where
  "failed (Inl err) = True"
| "failed (Inr response) = (\<not> success response)"

text \<open>
  The two outcomes an endpoint with data has: it threw an \<open>Error\<close>, or it resolved with an
  object whose \<open>success\<close> is true.
\<close>

fun error_or_data :: "js_thrown + 'a response \<Rightarrow> bool" where
  "error_or_data (Inl (Error m)) = True"
| "error_or_data (Inl NonError) = False"
| "error_or_data (Inr response) = success response"


section \<open>The store keeps its unread count\<close>

text \<open>
  C1. Whatever action the reducer applies to a state in which the unread count equals the number
  of notifications with \<open>read = false\<close>, the count of the resulting state equals the number of
  its notifications with \<open>read = false\<close>.
\<close>

theorem appReducer_preserves_unread_count:
  "unread_invariant state \<Longrightarrow>
   unreadNotificationCount (appReducer state action) =
     length (filter (\<lambda>n. \<not> read n) (notifications (appReducer state action)))"
  by (cases action) (simp_all add: unread_invariant_def Let_def)

theorem appReducer_preserves_unread_count_witness:
  "unread_invariant
     (initialState\<lparr>notifications :=
        [\<lparr>notification_id = lit ''1'', notification_type = Ntf_renewal, title = lit ''a'',
          notification_message = lit ''b'', read = False, timestamp = lit ''t'',
          actionUrl = None\<rparr>],
        unreadNotificationCount := 1\<rparr>)
   \<and> unreadNotificationCount
       (appReducer
          (initialState\<lparr>notifications :=
             [\<lparr>notification_id = lit ''1'', notification_type = Ntf_renewal, title = lit ''a'',
               notification_message = lit ''b'', read = False, timestamp = lit ''t'',
               actionUrl = None\<rparr>],
             unreadNotificationCount := 1\<rparr>)
          (MARK_NOTIFICATION_READ (lit ''1''))) = 0"
proof -
  let ?s = "initialState\<lparr>notifications :=
        [\<lparr>notification_id = lit ''1'', notification_type = Ntf_renewal, title = lit ''a'',
          notification_message = lit ''b'', read = False, timestamp = lit ''t'',
          actionUrl = None\<rparr>],
        unreadNotificationCount := 1\<rparr>"
  have inv: "unread_invariant ?s"
    by (simp add: unread_invariant_def initialState_def)
  from appReducer_preserves_unread_count [OF inv, of "MARK_NOTIFICATION_READ (lit ''1'')"]
  show ?thesis using inv by (simp add: initialState_def)
qed


section \<open>Marking a notification as read\<close>

lemma mark_read_twice:
  "(\<lambda>n. if notification_id n = i then n\<lparr>read := True\<rparr> else n) \<circ>
   (\<lambda>n. if notification_id n = i then n\<lparr>read := True\<rparr> else n) =
   (\<lambda>n::notification. if notification_id n = i then n\<lparr>read := True\<rparr> else n)"
  by (rule ext) simp

lemma mark_read_erased:
  "(\<lambda>n. n\<lparr>read := True\<rparr>) \<circ> (\<lambda>n. if notification_id n = i then n\<lparr>read := True\<rparr> else n) =
   (\<lambda>n::notification. n\<lparr>read := True\<rparr>)"
  by (rule ext) simp

lemma mark_read_others:
  "filter (\<lambda>n. notification_id n \<noteq> i)
     (map (\<lambda>n. if notification_id n = i then n\<lparr>read := True\<rparr> else n) ns) =
   filter (\<lambda>n. notification_id n \<noteq> i) ns"
  by (induction ns) simp_all

text \<open>
  C9. \<open>MARK_NOTIFICATION_READ\<close> is idempotent: applied twice with the same id it gives the
  state it gives when applied once. Its list of notifications is the old one with the matched
  entries' \<open>read\<close> set, position by position: the length is the same, the entries agree with
  the old ones in every field but \<open>read\<close>, and the entries with another id are untouched.
\<close>

theorem mark_notification_read_idempotent:
  "appReducer (appReducer st (MARK_NOTIFICATION_READ i)) (MARK_NOTIFICATION_READ i) =
     appReducer st (MARK_NOTIFICATION_READ i)
   \<and> notifications (appReducer st (MARK_NOTIFICATION_READ i)) =
       map (\<lambda>n. if notification_id n = i then n\<lparr>read := True\<rparr> else n) (notifications st)
   \<and> length (notifications (appReducer st (MARK_NOTIFICATION_READ i))) =
       length (notifications st)
   \<and> map (\<lambda>n. n\<lparr>read := True\<rparr>) (notifications (appReducer st (MARK_NOTIFICATION_READ i))) =
       map (\<lambda>n. n\<lparr>read := True\<rparr>) (notifications st)
   \<and> filter (\<lambda>n. notification_id n \<noteq> i)
         (notifications (appReducer st (MARK_NOTIFICATION_READ i))) =
       filter (\<lambda>n. notification_id n \<noteq> i) (notifications st)"
proof (intro conjI)
  show "appReducer (appReducer st (MARK_NOTIFICATION_READ i)) (MARK_NOTIFICATION_READ i) =
     appReducer st (MARK_NOTIFICATION_READ i)"
    by (simp add: Let_def mark_read_twice)
  show "notifications (appReducer st (MARK_NOTIFICATION_READ i)) =
       map (\<lambda>n. if notification_id n = i then n\<lparr>read := True\<rparr> else n) (notifications st)"
    by (simp add: Let_def)
  show "length (notifications (appReducer st (MARK_NOTIFICATION_READ i))) =
       length (notifications st)"
    by (simp add: Let_def)
  show "map (\<lambda>n. n\<lparr>read := True\<rparr>) (notifications (appReducer st (MARK_NOTIFICATION_READ i))) =
       map (\<lambda>n. n\<lparr>read := True\<rparr>) (notifications st)"
    by (simp add: Let_def mark_read_erased)
  show "filter (\<lambda>n. notification_id n \<noteq> i)
         (notifications (appReducer st (MARK_NOTIFICATION_READ i))) =
       filter (\<lambda>n. notification_id n \<noteq> i) (notifications st)"
    using mark_read_others [of i "notifications st"] by (simp add: Let_def)
qed

theorem mark_notification_read_idempotent_witness:
  "appReducer
     (appReducer (initialState\<lparr>notifications := notifications_payload\<rparr>)
        (MARK_NOTIFICATION_READ (lit ''2'')))
     (MARK_NOTIFICATION_READ (lit ''2'')) =
   appReducer (initialState\<lparr>notifications := notifications_payload\<rparr>)
     (MARK_NOTIFICATION_READ (lit ''2''))
   \<and> length (notifications
        (appReducer (initialState\<lparr>notifications := notifications_payload\<rparr>)
           (MARK_NOTIFICATION_READ (lit ''2'')))) = 3"
  using mark_notification_read_idempotent
    [of "initialState\<lparr>notifications := notifications_payload\<rparr>" "lit ''2''"]
  by (simp add: notifications_payload_def)

section \<open>Toggling auto-renewal\<close>

lemma find_distinct_nth:
  assumes "distinct (map f xs)" and "k < length xs" and "f (xs ! k) = a"
  shows "find (\<lambda>x. f x = a) xs = Some (xs ! k)"
proof -
  have "\<not> (f (xs ! j) = a)" if "j < k" for j
  proof
    assume "f (xs ! j) = a"
    with assms that have "map f xs ! j = map f xs ! k" by simp
    with assms that show False
      by (simp add: nth_eq_iff_index_eq del: nth_map)
  qed
  with assms show ?thesis
    by (auto simp: find_Some_iff)
qed

lemma find_holds: "find P xs = Some u \<Longrightarrow> P u"
  by (auto simp: find_Some_iff)

text \<open>
  C4. Toggling the auto-renew flag of a service through the hook leaves the length of the
  services collection and the order of its ids as they were, and every record with another id
  identical; this holds for every outcome of the API call and every render the hook's closure
  was created in. When the call succeeds on the current collection, whose ids are distinct,
  the record with that id becomes itself with the new flag.
\<close>

theorem toggleAutoRenew_changes_only_that_service:
  "length (services (snd (snd (toggleAutoRenew_on result rendered sid flag (h, st))))) =
     length (services st)
   \<and> map service_id (services (snd (snd (toggleAutoRenew_on result rendered sid flag (h, st))))) =
       map service_id (services st)
   \<and> (\<forall>k<length (services st). service_id (services st ! k) \<noteq> sid \<longrightarrow>
         services (snd (snd (toggleAutoRenew_on result rendered sid flag (h, st)))) ! k =
           services st ! k)
   \<and> (\<forall>response. result = Inr response \<and> success response \<and> rendered = services st
          \<and> distinct (map service_id (services st)) \<longrightarrow>
        (\<forall>k<length (services st). service_id (services st ! k) = sid \<longrightarrow>
           services (snd (snd (toggleAutoRenew_on result rendered sid flag (h, st)))) ! k =
             (services st ! k)\<lparr>autoRenew := flag\<rparr>))"
proof -
  let ?svs' = "services (snd (snd (toggleAutoRenew_on result rendered sid flag (h, st))))"
  let ?found = "find (\<lambda>s. service_id s = sid) rendered"
  have unchanged: "?svs' = services st"
    if "\<not> (\<exists>response u. result = Inr response \<and> success response \<and> ?found = Some u)"
    using that
    by (auto simp: toggleAutoRenew_on_def setError_def split: sum.splits option.splits)
  have changed:
    "?svs' = map (\<lambda>s. if service_id s = sid then u\<lparr>autoRenew := flag\<rparr> else s) (services st)"
    if "result = Inr response" "success response" "?found = Some u" for response u
    using that find_holds [OF that(3)]
    by (simp add: toggleAutoRenew_on_def dispatch_def)
  show ?thesis
  proof (cases "\<exists>response u. result = Inr response \<and> success response \<and> ?found = Some u")
    case False
    from unchanged [OF False] have eq: "?svs' = services st" .
    have "\<not> (\<exists>response. result = Inr response \<and> success response \<and> rendered = services st
            \<and> (\<exists>k<length (services st). service_id (services st ! k) = sid))"
    proof
      assume "\<exists>response. result = Inr response \<and> success response \<and> rendered = services st
            \<and> (\<exists>k<length (services st). service_id (services st ! k) = sid)"
      then obtain response k where r: "result = Inr response" "success response"
        "rendered = services st" "k < length (services st)" "service_id (services st ! k) = sid"
        by blast
      then have "\<exists>u. ?found = Some u"
        by (cases ?found) (auto simp: find_None_iff)
      with r False show False by blast
    qed
    with eq show ?thesis by auto
  next
    case True
    then obtain response u where r: "result = Inr response" "success response" "?found = Some u"
      by blast
    from changed [OF r]
    have eq: "?svs' = map (\<lambda>s. if service_id s = sid then u\<lparr>autoRenew := flag\<rparr> else s) (services st)" .
    have uid: "service_id u = sid" using find_holds [OF r(3)] .
    have ids: "map service_id ?svs' = map service_id (services st)"
      unfolding eq using uid by (induction "services st") auto
    have "?svs' ! k = (services st ! k)\<lparr>autoRenew := flag\<rparr>"
      if "rendered = services st" "distinct (map service_id (services st))"
         "k < length (services st)" "service_id (services st ! k) = sid" for k
    proof -
      from find_distinct_nth [OF that(2) that(3) that(4)] r(3) that(1)
      have "u = services st ! k" by simp
      with that show ?thesis unfolding eq by simp
    qed
    moreover have "length ?svs' = length (services st)" unfolding eq by simp
    moreover have "?svs' ! k = services st ! k"
      if "k < length (services st)" "service_id (services st ! k) \<noteq> sid" for k
      using that unfolding eq by simp
    ultimately show ?thesis using ids by blast
  qed
qed

theorem toggleAutoRenew_changes_only_that_service_witness:
  "length (services (snd (snd (toggleAutoRenew_on
       (mockApi_toggleAutoRenew (1/2) (lit ''2025-08-01T00:00:00Z'') (lit ''2'') True)
       services_payload (lit ''2'') True
       (\<lparr>hook_loading = False, hook_error = None\<rparr>,
        initialState\<lparr>services := services_payload\<rparr>))))) = 4
   \<and> services (snd (snd (toggleAutoRenew_on
       (mockApi_toggleAutoRenew (1/2) (lit ''2025-08-01T00:00:00Z'') (lit ''2'') True)
       services_payload (lit ''2'') True
       (\<lparr>hook_loading = False, hook_error = None\<rparr>,
        initialState\<lparr>services := services_payload\<rparr>)))) ! 0 = services_payload ! 0
   \<and> services (snd (snd (toggleAutoRenew_on
       (mockApi_toggleAutoRenew (1/2) (lit ''2025-08-01T00:00:00Z'') (lit ''2'') True)
       services_payload (lit ''2'') True
       (\<lparr>hook_loading = False, hook_error = None\<rparr>,
        initialState\<lparr>services := services_payload\<rparr>)))) ! 1 =
     (services_payload ! 1)\<lparr>autoRenew := True\<rparr>"
proof -
  let ?st = "initialState\<lparr>services := services_payload\<rparr>"
  let ?res = "mockApi_toggleAutoRenew (1/2) (lit ''2025-08-01T00:00:00Z'') (lit ''2'') True"
  note T = toggleAutoRenew_changes_only_that_service
    [of ?res services_payload "lit ''2''" True "\<lparr>hook_loading = False, hook_error = None\<rparr>" ?st]
  have sv: "services ?st = services_payload" by simp
  have len: "length services_payload = 4" by (simp add: services_payload_def)
  have ids: "map service_id services_payload = [lit ''1'', lit ''2'', lit ''3'', lit ''4'']"
    by (simp add: services_payload_def)
  have id0: "service_id (services_payload ! 0) \<noteq> lit ''2''"
    by (simp add: services_payload_def lit_def)
  have id1: "service_id (services_payload ! 1) = lit ''2''"
    by (simp add: services_payload_def)
  have dist: "distinct (map service_id services_payload)"
    unfolding ids by (simp add: lit_def)
  have ok: "?res = Inr \<lparr>success = True,
      data = \<lparr>autoRenew_id = lit ''2'', autoRenew_value = True,
              autoRenew_updatedAt = lit ''2025-08-01T00:00:00Z''\<rparr>,
      response_message = Some (lit ''Auto-renewal '' @ lit ''enabled'' @ lit '' successfully'')\<rparr>"
    by (simp add: mockApi_toggleAutoRenew_def mockApi_toggleAutoRenew_with_def
        shouldSimulateError_def default_chance_def simulateRequest_def)
  from T have a: "length (services (snd (snd (toggleAutoRenew_on ?res services_payload (lit ''2'')
      True (\<lparr>hook_loading = False, hook_error = None\<rparr>, ?st))))) = 4"
    unfolding sv len by blast
  from T id0 have b: "services (snd (snd (toggleAutoRenew_on ?res services_payload (lit ''2'')
      True (\<lparr>hook_loading = False, hook_error = None\<rparr>, ?st)))) ! 0 = services_payload ! 0"
    unfolding sv len by simp
  from T ok dist id1 have c: "services (snd (snd (toggleAutoRenew_on ?res services_payload (lit ''2'')
      True (\<lparr>hook_loading = False, hook_error = None\<rparr>, ?st)))) ! 1 =
      (services_payload ! 1)\<lparr>autoRenew := True\<rparr>"
    unfolding sv len by simp
  from a b c show ?thesis by blast
qed


section \<open>Creating a support ticket\<close>

lemma createSupportTicket_success:
  "\<not> shouldSimulateError default_chance draw \<Longrightarrow>
   mockApi_createSupportTicket draw rid now1 now2 now3 td =
     Inr \<lparr>success = True,
          data =
            \<lparr>ticket_id = rid, category = td_category td, subject = td_subject td,
             body = td_body td, ticket_status = Open,
             priority = (case td_priority td of Some p \<Rightarrow> p | None \<Rightarrow> Medium),
             createdAt = now1, updatedAt = now2,
             messages =
               [\<lparr>msg_id = lit ''1'', sender = Sender_user, message = td_body td,
                 msg_timestamp = now3\<rparr>],
             attachments = td_attachments td\<rparr>,
          response_message = Some (lit ''Support ticket created successfully'')\<rparr>"
  by (simp add: mockApi_createSupportTicket_def mockApi_createSupportTicket_with_def
      simulateRequest_def Let_def)

text \<open>
  C5. When \<open>createSupportTicket\<close> succeeds, the hook puts exactly one new ticket in front of
  the tickets the store held, which stay as they were; the new ticket has status \<open>open\<close> and
  one message, sent by the user, whose text is the ticket body.
\<close>

theorem createTicket_adds_open_ticket_in_front:
  "\<not> shouldSimulateError default_chance draw \<Longrightarrow>
   supportTickets (snd (snd (createTicket draw rid now1 now2 now3 rid' now4 now5 td (h, st)))) =
     \<lparr>ticket_id = rid', category = td_category td, subject = td_subject td,
      body = td_body td, ticket_status = Open,
      priority = (case td_priority td of Some p \<Rightarrow> p | None \<Rightarrow> Medium),
      createdAt = now4, updatedAt = now5,
      messages =
        [\<lparr>msg_id = lit ''1'', sender = Sender_user, message = td_body td,
          msg_timestamp = now3\<rparr>],
      attachments = td_attachments td\<rparr> # supportTickets st
   \<and> length (supportTickets
        (snd (snd (createTicket draw rid now1 now2 now3 rid' now4 now5 td (h, st))))) =
       Suc (length (supportTickets st))
   \<and> tl (supportTickets
        (snd (snd (createTicket draw rid now1 now2 now3 rid' now4 now5 td (h, st))))) =
       supportTickets st
   \<and> ticket_status (hd (supportTickets
        (snd (snd (createTicket draw rid now1 now2 now3 rid' now4 now5 td (h, st)))))) = Open
   \<and> map message (messages (hd (supportTickets
        (snd (snd (createTicket draw rid now1 now2 now3 rid' now4 now5 td (h, st))))))) =
       [td_body td]"
proof -
  assume ok: "\<not> shouldSimulateError default_chance draw"
  have "supportTickets (snd (snd (createTicket draw rid now1 now2 now3 rid' now4 now5 td (h, st)))) =
     \<lparr>ticket_id = rid', category = td_category td, subject = td_subject td,
      body = td_body td, ticket_status = Open,
      priority = (case td_priority td of Some p \<Rightarrow> p | None \<Rightarrow> Medium),
      createdAt = now4, updatedAt = now5,
      messages =
        [\<lparr>msg_id = lit ''1'', sender = Sender_user, message = td_body td,
          msg_timestamp = now3\<rparr>],
      attachments = td_attachments td\<rparr> # supportTickets st"
    by (simp add: createTicket_def createTicket_on_def createSupportTicket_success [OF ok]
        fetch_def setLoading_def setError_def addSupportTicket_def)
  then show ?thesis by simp
qed

theorem createTicket_adds_open_ticket_in_front_witness:
  "supportTickets (snd (snd (createTicket (1/2) (lit ''K3J9Q'') (lit ''t1'') (lit ''t2'') (lit ''t3'')
       (lit ''x7f2k9q1z'') (lit ''t4'') (lit ''t5'')
       \<lparr>td_category = lit ''Technical'', td_subject = lit ''Mail'', td_body = lit ''No mail.'',
        td_status = None, td_priority = None, td_attachments = None\<rparr>
       (\<lparr>hook_loading = False, hook_error = None\<rparr>,
        initialState\<lparr>supportTickets := tickets_payload\<rparr>)))) =
     \<lparr>ticket_id = lit ''x7f2k9q1z'', category = lit ''Technical'', subject = lit ''Mail'',
      body = lit ''No mail.'', ticket_status = Open, priority = Medium,
      createdAt = lit ''t4'', updatedAt = lit ''t5'',
      messages =
        [\<lparr>msg_id = lit ''1'', sender = Sender_user, message = lit ''No mail.'',
          msg_timestamp = lit ''t3''\<rparr>],
      attachments = None\<rparr> # tickets_payload"
proof -
  have ok: "\<not> shouldSimulateError default_chance (1/2)"
    by (simp add: shouldSimulateError_def default_chance_def)
  from createTicket_adds_open_ticket_in_front [OF ok, THEN conjunct1,
      of "lit ''K3J9Q''" "lit ''t1''" "lit ''t2''" "lit ''t3''" "lit ''x7f2k9q1z''"
         "lit ''t4''" "lit ''t5''"
         "\<lparr>td_category = lit ''Technical'', td_subject = lit ''Mail'', td_body = lit ''No mail.'',
          td_status = None, td_priority = None, td_attachments = None\<rparr>"
         "\<lparr>hook_loading = False, hook_error = None\<rparr>"
         "initialState\<lparr>supportTickets := tickets_payload\<rparr>"]
  show ?thesis by simp
qed

section \<open>Signing in\<close>

text \<open>
  C3. \<open>handleLogin\<close> with the email \<open>john.doe@example.com\<close> and the password \<open>password123\<close>
  in the form sets the current user and routes to \<open>/dashboard\<close>, with no error shown; with any
  other pair it leaves the store and the route as they were and shows the message that starts
  with \<open>Invalid email or password\<close>. In both cases the loading flag ends cleared.
\<close>

theorem handleLogin_accepts_only_demo_credentials:
  "(formData_email (page w) = lit ''john.doe@example.com''
      \<and> formData_password (page w) = lit ''password123'' \<longrightarrow>
      currentUser (store (handleLogin w)) = Some mockUser
      \<and> route (handleLogin w) = lit ''/dashboard''
      \<and> login_error (page (handleLogin w)) = []
      \<and> handleLogin w =
          w\<lparr>page := (page w)\<lparr>login_loading := False, login_error := []\<rparr>,
            store := (store w)\<lparr>currentUser := Some mockUser\<rparr>, route := lit ''/dashboard''\<rparr>)
   \<and> (\<not> (formData_email (page w) = lit ''john.doe@example.com''
          \<and> formData_password (page w) = lit ''password123'') \<longrightarrow>
      login_error (page (handleLogin w)) =
        lit ''Invalid email or password'' @ lit ''. Please try again.''
      \<and> store (handleLogin w) = store w
      \<and> route (handleLogin w) = route w
      \<and> handleLogin w =
          w\<lparr>page := (page w)\<lparr>login_loading := False,
                 login_error := lit ''Invalid email or password. Please try again.''\<rparr>\<rparr>)"
  by (simp add: handleLogin_def Let_def setUser_def lit_def)

theorem handleLogin_accepts_only_demo_credentials_witness:
  "route (handleLogin
      \<lparr>page = \<lparr>formData_email = lit ''john.doe@example.com'',
               formData_password = lit ''password123'', login_loading = False,
               login_error = []\<rparr>,
       store = initialState, route = lit ''/login''\<rparr>) = lit ''/dashboard''
   \<and> currentUser (store (handleLogin
      \<lparr>page = \<lparr>formData_email = lit ''john.doe@example.com'',
               formData_password = lit ''password123'', login_loading = False,
               login_error = []\<rparr>,
       store = initialState, route = lit ''/login''\<rparr>)) = Some mockUser
   \<and> login_error (page (handleLogin
      \<lparr>page = \<lparr>formData_email = lit ''john.doe@example.com'',
               formData_password = lit ''Password123'', login_loading = False,
               login_error = []\<rparr>,
       store = initialState, route = lit ''/login''\<rparr>)) =
     lit ''Invalid email or password. Please try again.''
   \<and> route (handleLogin
      \<lparr>page = \<lparr>formData_email = lit ''john.doe@example.com'',
               formData_password = lit ''Password123'', login_loading = False,
               login_error = []\<rparr>,
       store = initialState, route = lit ''/login''\<rparr>) = lit ''/login''"
proof -
  let ?good = "\<lparr>page = \<lparr>formData_email = lit ''john.doe@example.com'',
               formData_password = lit ''password123'', login_loading = False,
               login_error = []\<rparr>,
       store = initialState, route = lit ''/login''\<rparr>"
  let ?bad = "\<lparr>page = \<lparr>formData_email = lit ''john.doe@example.com'',
               formData_password = lit ''Password123'', login_loading = False,
               login_error = []\<rparr>,
       store = initialState, route = lit ''/login''\<rparr>"
  have g: "formData_email (page ?good) = lit ''john.doe@example.com''
      \<and> formData_password (page ?good) = lit ''password123''"
    by simp
  have b: "\<not> (formData_email (page ?bad) = lit ''john.doe@example.com''
      \<and> formData_password (page ?bad) = lit ''password123'')"
    by (simp add: lit_def)
  from handleLogin_accepts_only_demo_credentials [of ?good, THEN conjunct1, rule_format, OF g]
  have 1: "route (handleLogin ?good) = lit ''/dashboard''"
    and 2: "currentUser (store (handleLogin ?good)) = Some mockUser"
    by blast+
  from handleLogin_accepts_only_demo_credentials [of ?bad, THEN conjunct2, rule_format, OF b]
  have 3: "login_error (page (handleLogin ?bad)) =
      lit ''Invalid email or password. Please try again.''"
    and 4: "route (handleLogin ?bad) = lit ''/login''"
    by (simp_all add: lit_def)
  from 1 2 3 4 show ?thesis by blast
qed

text \<open>
  The \<open>login\<close> of the mock API client, which the login page does not call, decides the same
  way once its failure injection has not fired, and rejects with a network error when it has.
\<close>

lemma mockApi_login_outcomes:
  "mockApi_login draw now_ms em pw =
     (if draw < login_chance then Inl (Error (lit ''Network error. Please try again.''))
      else if em = lit ''john.doe@example.com'' \<and> pw = lit ''password123''
      then Inr (Login_data
                  \<lparr>success = True,
                   data = \<lparr>token = lit ''mock-jwt-token-'' @ show_int now_ms,
                           login_user = login_payload_user\<rparr>,
                   response_message = None\<rparr>)
      else Inr (Login_failure
                  \<lparr>failure_success = False,
                   failure_message = lit ''Invalid email or password'',
                   errors = [lit ''Invalid credentials'']\<rparr>))"
  by (simp add: mockApi_login_def mockApi_login_with_def shouldSimulateError_def
      simulateError_def simulateRequest_def)


section \<open>Validation in the form field\<close>

lemma dropWhile_all_iff:
  "(\<forall>x\<in>set (dropWhile P xs). P x) \<longleftrightarrow> (\<forall>x\<in>set xs. P x)"
proof
  assume a: "\<forall>x\<in>set (dropWhile P xs). P x"
  have "dropWhile P xs = []"
  proof (rule ccontr)
    assume ne: "dropWhile P xs \<noteq> []"
    then have "\<not> P (hd (dropWhile P xs))" by (rule hd_dropWhile)
    moreover from ne have "hd (dropWhile P xs) \<in> set (dropWhile P xs)" by simp
    ultimately show False using a by blast
  qed
  then show "\<forall>x\<in>set xs. P x" by simp
next
  assume "\<forall>x\<in>set xs. P x"
  then show "\<forall>x\<in>set (dropWhile P xs). P x"
    by (auto dest: set_dropWhileD)
qed

lemma trim_empty_iff: "trim v = [] \<longleftrightarrow> (\<forall>c\<in>set v. isWhiteSpace c)"
  by (simp add: trim_def dropWhile_all_iff)

lemma validate_required:
  "rules props = Some vr \<Longrightarrow> required vr = Some True \<Longrightarrow> \<forall>c\<in>set v. isWhiteSpace c \<Longrightarrow>
   validate props v = labelOrName props @ lit '' is required''"
  by (simp add: validate_def check_required_def truthy_def trim_empty_iff)

lemma untouched_without_blur:
  "\<forall>ev\<in>set evs. \<not> is_blur ev \<Longrightarrow> \<not> touched fs \<Longrightarrow>
   foldl (field_step props) fs evs = fs"
proof (induction evs arbitrary: fs)
  case Nil
  then show ?case by simp
next
  case (Cons ev evs)
  then show ?case by (cases ev) (simp_all add: handleChange_def)
qed

text \<open>
  C2. With \<open>required: true\<close> among the rules, validating an empty or whitespace-only value
  gives the message \<open>... is required\<close>. The field shows it once it has been blurred, and on
  every later change, unless an external error takes its place. As long as the field has not
  been touched, which is so after any sequence of changes without a blur, the only error it
  can show is the external one: no validation error, whatever the value.
\<close>

theorem required_error_shown_only_after_touch:
  assumes "rules props = Some vr" and "required vr = Some True"
    and "\<forall>c\<in>set v. isWhiteSpace c"
  shows "validate props v = labelOrName props @ lit '' is required''
    \<and> touched (handleBlur props v fs)
    \<and> currentError props (handleBlur props v fs) =
        (case externalError props of
           Some e \<Rightarrow> if truthy e then e else labelOrName props @ lit '' is required''
         | None \<Rightarrow> labelOrName props @ lit '' is required'')
    \<and> (touched fs \<longrightarrow>
         currentError props (handleChange props v fs) =
           (case externalError props of
              Some e \<Rightarrow> if truthy e then e else labelOrName props @ lit '' is required''
            | None \<Rightarrow> labelOrName props @ lit '' is required''))
    \<and> (\<not> touched fs \<longrightarrow>
         currentError props fs = (case externalError props of Some e \<Rightarrow> e | None \<Rightarrow> [])
         \<and> \<not> touched (handleChange props w fs))
    \<and> ((\<forall>ev\<in>set evs. \<not> is_blur ev) \<longrightarrow>
         run_field props evs = initialField
         \<and> currentError props (run_field props evs) =
             (case externalError props of Some e \<Rightarrow> e | None \<Rightarrow> []))"
proof -
  note req = validate_required [OF assms]
  have untouched:
    "currentError props fs' = (case externalError props of Some e \<Rightarrow> e | None \<Rightarrow> [])"
    if "\<not> touched fs'" for fs'
    using that by (simp add: currentError_def truthy_def split: option.splits)
  have quiet: "run_field props evs = initialField" if "\<forall>ev\<in>set evs. \<not> is_blur ev"
    unfolding run_field_def
    by (rule untouched_without_blur [OF that]) (simp add: initialField_def)
  have "currentError props (run_field props evs) =
      (case externalError props of Some e \<Rightarrow> e | None \<Rightarrow> [])"
    if "\<forall>ev\<in>set evs. \<not> is_blur ev"
    using quiet [OF that] untouched [of initialField] by (simp add: initialField_def)
  moreover have "currentError props (handleBlur props v fs) =
        (case externalError props of
           Some e \<Rightarrow> if truthy e then e else labelOrName props @ lit '' is required''
         | None \<Rightarrow> labelOrName props @ lit '' is required'')"
    by (simp add: currentError_def handleBlur_def req split: option.splits)
  moreover have "currentError props (handleChange props v fs) =
           (case externalError props of
              Some e \<Rightarrow> if truthy e then e else labelOrName props @ lit '' is required''
            | None \<Rightarrow> labelOrName props @ lit '' is required'')" if "touched fs"
    using that by (simp add: currentError_def handleChange_def req split: option.splits)
  moreover have "touched (handleBlur props v fs)" by (simp add: handleBlur_def)
  moreover have "\<not> touched (handleChange props w fs)" if "\<not> touched fs"
    using that by (simp add: handleChange_def)
  ultimately show ?thesis using req untouched [of fs] quiet by blast
qed

theorem required_error_shown_only_after_touch_witness:
  "validate
     \<lparr>name = lit ''password'', label = Some (lit ''Password''),
      rules = Some \<lparr>required = Some True, minLength = Some 8, maxLength = None,
                    pattern = None, custom = None\<rparr>,
      externalError = None\<rparr> (lit ''  '') = lit ''Password is required''
   \<and> currentError
       \<lparr>name = lit ''password'', label = Some (lit ''Password''),
        rules = Some \<lparr>required = Some True, minLength = Some 8, maxLength = None,
                      pattern = None, custom = None\<rparr>,
        externalError = None\<rparr>
       (handleBlur
          \<lparr>name = lit ''password'', label = Some (lit ''Password''),
           rules = Some \<lparr>required = Some True, minLength = Some 8, maxLength = None,
                         pattern = None, custom = None\<rparr>,
           externalError = None\<rparr> (lit ''  '') initialField) = lit ''Password is required''
   \<and> currentError
       \<lparr>name = lit ''password'', label = Some (lit ''Password''),
        rules = Some \<lparr>required = Some True, minLength = Some 8, maxLength = None,
                      pattern = None, custom = None\<rparr>,
        externalError = None\<rparr>
       (run_field
          \<lparr>name = lit ''password'', label = Some (lit ''Password''),
           rules = Some \<lparr>required = Some True, minLength = Some 8, maxLength = None,
                         pattern = None, custom = None\<rparr>,
           externalError = None\<rparr> [Change (lit '' ''), Change (lit ''  '')]) = []"
proof -
  let ?vr = "\<lparr>required = Some True, minLength = Some 8, maxLength = None,
             pattern = None, custom = None\<rparr>"
  let ?props = "\<lparr>name = lit ''password'', label = Some (lit ''Password''),
                rules = Some ?vr, externalError = None\<rparr>"
  have r: "rules ?props = Some ?vr" by simp
  have q: "required ?vr = Some True" by simp
  have ws: "\<forall>c\<in>set (lit ''  ''). isWhiteSpace c"
    by (simp add: lit_def isWhiteSpace_def)
  have nb: "\<forall>ev\<in>set [Change (lit '' ''), Change (lit ''  '')]. \<not> is_blur ev"
    by simp
  have lab: "labelOrName ?props @ lit '' is required'' = lit ''Password is required''"
    by (simp add: labelOrName_def truthy_def lit_def)
  note T = required_error_shown_only_after_touch [OF r q ws,
      where fs = initialField and evs = "[Change (lit '' ''), Change (lit ''  '')]"]
  from T have 1: "validate ?props (lit ''  '') = lit ''Password is required''"
    unfolding lab by blast
  from T have 2: "currentError ?props (handleBlur ?props (lit ''  '') initialField) =
      lit ''Password is required''"
    unfolding lab by simp
  from T nb have 3: "currentError ?props
      (run_field ?props [Change (lit '' ''), Change (lit ''  '')]) = []"
    by (simp add: currentError_def initialField_def)
  from 1 2 3 show ?thesis by blast
qed

text \<open>
  C10, as stated, fails: a rule set with a pattern, without \<open>required\<close> and without
  \<open>minLength\<close>, still reports an error for the empty string when its custom rule rejects the
  empty string, or when its \<open>maxLength\<close> is negative; the touched field then shows it.
\<close>

theorem empty_input_rejected_by_custom_rule:
  "validate
     \<lparr>name = lit ''code'', label = None,
      rules = Some \<lparr>required = None, minLength = None, maxLength = None,
                    pattern = Some (\<lambda>s. s = lit ''A1''),
                    custom = Some (\<lambda>s. if s = [] then Some (lit ''Enter a code'') else None)\<rparr>,
      externalError = None\<rparr> [] = lit ''Enter a code''
   \<and> currentError
       \<lparr>name = lit ''code'', label = None,
        rules = Some \<lparr>required = None, minLength = None, maxLength = None,
                      pattern = Some (\<lambda>s. s = lit ''A1''),
                      custom = Some (\<lambda>s. if s = [] then Some (lit ''Enter a code'') else None)\<rparr>,
        externalError = None\<rparr>
       (handleBlur
         \<lparr>name = lit ''code'', label = None,
          rules = Some \<lparr>required = None, minLength = None, maxLength = None,
                        pattern = Some (\<lambda>s. s = lit ''A1''),
                        custom = Some (\<lambda>s. if s = [] then Some (lit ''Enter a code'') else None)\<rparr>,
          externalError = None\<rparr> [] initialField) = lit ''Enter a code''
   \<and> lit ''Enter a code'' \<noteq> []
   \<and> validate
       \<lparr>name = lit ''code'', label = None,
        rules = Some \<lparr>required = None, minLength = None, maxLength = Some (- 1),
                      pattern = Some (\<lambda>s. s = lit ''A1''), custom = None\<rparr>,
        externalError = None\<rparr> [] = lit ''code must be no more than -1 characters''"
  by (simp add: validate_def check_required_def check_minLength_def check_maxLength_def
      check_pattern_def check_custom_def truthy_def currentError_def handleBlur_def
      labelOrName_def show_int_def show_nat.simps [of "Suc 0"] lit_def)

text \<open>
  C10, amended. When the rules hold a pattern, no \<open>required: true\<close>, no \<open>minLength\<close>, no
  negative \<open>maxLength\<close>, and no custom rule that reports an error for the empty string, then
  validating the empty string yields no error: the pattern rule is skipped for empty input
  (under any rules), and the field, also once touched, shows no validation error.
\<close>

theorem pattern_skipped_for_empty_input:
  assumes "rules props = Some vr" and "pattern vr = Some test"
    and "required vr \<noteq> Some True" and "minLength vr = None"
    and "maxLength vr = None \<or> (\<exists>m. maxLength vr = Some m \<and> 0 \<le> m)"
    and "custom vr = None \<or> (\<exists>f. custom vr = Some f \<and> (f [] = None \<or> f [] = Some []))"
  shows "check_pattern props vr [] = None
    \<and> validate props [] = []
    \<and> touched (handleBlur props [] fs)
    \<and> internalError (handleBlur props [] fs) = []
    \<and> currentError props (handleBlur props [] fs) =
        (case externalError props of Some e \<Rightarrow> e | None \<Rightarrow> [])"
proof -
  have p: "check_pattern props vr [] = None"
    by (simp add: check_pattern_def truthy_def split: option.splits)
  have q: "check_required props vr [] = None"
    using assms(3) by (simp add: check_required_def)
  have mn: "check_minLength props vr [] = None"
    using assms(4) by (simp add: check_minLength_def)
  have mx: "check_maxLength props vr [] = None"
    using assms(5) by (auto simp: check_maxLength_def)
  have c: "check_custom vr [] = None"
    using assms(6) by (auto simp: check_custom_def truthy_def)
  have v: "validate props [] = []"
    by (simp add: validate_def assms(1) p q mn mx c)
  have "currentError props (handleBlur props [] fs) =
        (case externalError props of Some e \<Rightarrow> e | None \<Rightarrow> [])"
    by (simp add: currentError_def handleBlur_def v truthy_def split: option.splits)
  with p v show ?thesis by (simp add: handleBlur_def)
qed

theorem pattern_skipped_for_empty_input_witness:
  "validate
     \<lparr>name = lit ''code'', label = None,
      rules = Some \<lparr>required = None, minLength = None, maxLength = Some 5,
                    pattern = Some (\<lambda>s. s = lit ''A1''), custom = None\<rparr>,
      externalError = None\<rparr> [] = []
   \<and> currentError
       \<lparr>name = lit ''code'', label = None,
        rules = Some \<lparr>required = None, minLength = None, maxLength = Some 5,
                      pattern = Some (\<lambda>s. s = lit ''A1''), custom = None\<rparr>,
        externalError = None\<rparr>
       (handleBlur
          \<lparr>name = lit ''code'', label = None,
           rules = Some \<lparr>required = None, minLength = None, maxLength = Some 5,
                         pattern = Some (\<lambda>s. s = lit ''A1''), custom = None\<rparr>,
           externalError = None\<rparr> [] initialField) = []"
proof -
  let ?vr = "\<lparr>required = None, minLength = None, maxLength = Some 5,
             pattern = Some (\<lambda>s. s = lit ''A1''), custom = None\<rparr>"
  let ?props = "\<lparr>name = lit ''code'', label = None, rules = Some ?vr, externalError = None\<rparr>"
  have "validate ?props [] = []
    \<and> touched (handleBlur ?props [] initialField)
    \<and> internalError (handleBlur ?props [] initialField) = []
    \<and> currentError ?props (handleBlur ?props [] initialField) =
        (case externalError ?props of Some e \<Rightarrow> e | None \<Rightarrow> [])"
    using pattern_skipped_for_empty_input
      [of ?props ?vr "\<lambda>s. s = lit ''A1''" initialField]
    by simp
  then show ?thesis by simp
qed


section \<open>Failures of the mock API and the hooks\<close>

lemma fetch_thrown:
  "fetch fallback onSuccess (Inl (Error m)) (h, st) =
     (h\<lparr>hook_loading := False, hook_error := Some m\<rparr>, st)"
  by (simp add: fetch_def setLoading_def setError_def errorMessage_def)

lemma fetch_failed_exact:
  "failed result \<Longrightarrow>
   fetch fallback onSuccess result (h, st) =
     (h\<lparr>hook_loading := False,
        hook_error :=
          Some (case result of Inl err \<Rightarrow> errorMessage err fallback | Inr r \<Rightarrow> fallback)\<rparr>,
      st)"
  by (cases result) (simp_all add: fetch_def setLoading_def setError_def)

lemma fetch_failed:
  "failed result \<Longrightarrow>
   \<exists>e. fetch fallback onSuccess result (h, st) =
     (h\<lparr>hook_loading := False, hook_error := Some e\<rparr>, st)"
  using fetch_failed_exact [of result fallback onSuccess h st] by blast

lemma thrown_failed: "failed (Inl err)"
  by simp

lemma certain_failure: "draw < 1 \<Longrightarrow> shouldSimulateError 1 draw"
  by (simp add: shouldSimulateError_def)

text \<open>
  C7. When the call of a hook has failed (it threw, or resolved with \<open>success: false\<close>), the
  store is what it was before the call, and so are the lists that \<open>useBilling\<close> and \<open>useDNS\<close>
  keep themselves; of the hook's own state only the error string and the loading flag are
  set. This holds for the six loading functions and for \<open>updateProfile\<close>, \<open>toggleAutoRenew\<close>,
  \<open>createTicket\<close> and \<open>markAsRead\<close>.
\<close>

theorem failed_call_keeps_loaded_data:
  assumes "failed rp" and "failed ru" and "failed rs" and "failed ra" and "failed rt"
    and "failed rc" and "failed rn" and "failed rm" and "failed ri" and "failed rq"
    and "failed rd"
  shows
    "(\<exists>e. loadProfile_on rp (h, st) = (h\<lparr>hook_loading := False, hook_error := Some e\<rparr>, st))
   \<and> (\<exists>e. snd (updateProfile_on ru (h, st)) =
          (h\<lparr>hook_loading := False, hook_error := Some e\<rparr>, st))
   \<and> (\<exists>e. loadServices_on rs (h, st) = (h\<lparr>hook_loading := False, hook_error := Some e\<rparr>, st))
   \<and> (\<exists>e. snd (toggleAutoRenew_on ra rendered sid flag (h, st)) =
          (h\<lparr>hook_error := Some e\<rparr>, st))
   \<and> (\<exists>e. loadTickets_on rt (h, st) = (h\<lparr>hook_loading := False, hook_error := Some e\<rparr>, st))
   \<and> (\<exists>e. snd (createTicket_on rc rid' now4 now5 (h, st)) =
          (h\<lparr>hook_loading := False, hook_error := Some e\<rparr>, st))
   \<and> (\<exists>e. loadNotifications_on rn (h, st) =
          (h\<lparr>hook_loading := False, hook_error := Some e\<rparr>, st))
   \<and> (\<exists>e. snd (markAsRead_on rm nid (h, st)) = (h\<lparr>hook_error := Some e\<rparr>, st))
   \<and> (\<exists>e. loadInvoices_on ri (hb, st) =
          (hb\<lparr>hook_loading := False, hook_error := Some e\<rparr>, st))
   \<and> invoices (fst (loadInvoices_on ri (hb, st))) = invoices hb
   \<and> paymentMethods (fst (loadInvoices_on ri (hb, st))) = paymentMethods hb
   \<and> (\<exists>e. loadPaymentMethods_on rq (hb, st) =
          (hb\<lparr>hook_loading := False, hook_error := Some e\<rparr>, st))
   \<and> invoices (fst (loadPaymentMethods_on rq (hb, st))) = invoices hb
   \<and> paymentMethods (fst (loadPaymentMethods_on rq (hb, st))) = paymentMethods hb
   \<and> (\<exists>e. loadDnsRecords_on rd (hdns, st) =
          (hdns\<lparr>hook_loading := False, hook_error := Some e\<rparr>, st))
   \<and> dnsRecords (fst (loadDnsRecords_on rd (hdns, st))) = dnsRecords hdns"
proof -
  have 1: "\<exists>e. loadProfile_on rp (h, st) = (h\<lparr>hook_loading := False, hook_error := Some e\<rparr>, st)"
    unfolding loadProfile_on_def by (rule fetch_failed [OF assms(1)])
  have 2: "\<exists>e. snd (updateProfile_on ru (h, st)) =
          (h\<lparr>hook_loading := False, hook_error := Some e\<rparr>, st)"
    unfolding updateProfile_on_def snd_conv by (rule fetch_failed [OF assms(2)])
  have 3: "\<exists>e. loadServices_on rs (h, st) = (h\<lparr>hook_loading := False, hook_error := Some e\<rparr>, st)"
    unfolding loadServices_on_def by (rule fetch_failed [OF assms(3)])
  have 4: "\<exists>e. snd (toggleAutoRenew_on ra rendered sid flag (h, st)) =
          (h\<lparr>hook_error := Some e\<rparr>, st)"
    using assms(4) by (cases ra) (auto simp: toggleAutoRenew_on_def setError_def)
  have 5: "\<exists>e. loadTickets_on rt (h, st) = (h\<lparr>hook_loading := False, hook_error := Some e\<rparr>, st)"
    unfolding loadTickets_on_def by (rule fetch_failed [OF assms(5)])
  have 6: "\<exists>e. snd (createTicket_on rc rid' now4 now5 (h, st)) =
          (h\<lparr>hook_loading := False, hook_error := Some e\<rparr>, st)"
    unfolding createTicket_on_def snd_conv by (rule fetch_failed [OF assms(6)])
  have 7: "\<exists>e. loadNotifications_on rn (h, st) =
          (h\<lparr>hook_loading := False, hook_error := Some e\<rparr>, st)"
    unfolding loadNotifications_on_def by (rule fetch_failed [OF assms(7)])
  have 8: "\<exists>e. snd (markAsRead_on rm nid (h, st)) = (h\<lparr>hook_error := Some e\<rparr>, st)"
    using assms(8) by (cases rm) (auto simp: markAsRead_on_def setError_def)
  have 9: "\<exists>e. loadInvoices_on ri (hb, st) =
          (hb\<lparr>hook_loading := False, hook_error := Some e\<rparr>, st)"
    unfolding loadInvoices_on_def by (rule fetch_failed [OF assms(9)])
  have 10: "\<exists>e. loadPaymentMethods_on rq (hb, st) =
          (hb\<lparr>hook_loading := False, hook_error := Some e\<rparr>, st)"
    unfolding loadPaymentMethods_on_def by (rule fetch_failed [OF assms(10)])
  have 11: "\<exists>e. loadDnsRecords_on rd (hdns, st) =
          (hdns\<lparr>hook_loading := False, hook_error := Some e\<rparr>, st)"
    unfolding loadDnsRecords_on_def by (rule fetch_failed [OF assms(11)])
  from 9 have inv9: "invoices (fst (loadInvoices_on ri (hb, st))) = invoices hb"
    "paymentMethods (fst (loadInvoices_on ri (hb, st))) = paymentMethods hb"
    by auto
  from 10 have inv10: "invoices (fst (loadPaymentMethods_on rq (hb, st))) = invoices hb"
    "paymentMethods (fst (loadPaymentMethods_on rq (hb, st))) = paymentMethods hb"
    by auto
  from 11 have dns11: "dnsRecords (fst (loadDnsRecords_on rd (hdns, st))) = dnsRecords hdns"
    by auto
  from 1 2 3 4 5 6 7 8 9 inv9 10 inv10 11 dns11 show ?thesis by blast
qed

theorem failed_call_keeps_loaded_data_witness:
  "snd (loadServices_on (mockApi_getServices 0)
      (\<lparr>hook_loading = False, hook_error = None\<rparr>,
       initialState\<lparr>services := services_payload\<rparr>)) =
     initialState\<lparr>services := services_payload\<rparr>
   \<and> invoices (fst (loadInvoices_on (mockApi_getInvoices 0)
      (\<lparr>hook_loading = False, hook_error = None, invoices = invoices_payload,
        paymentMethods = []\<rparr>,
       initialState\<lparr>services := services_payload\<rparr>))) = invoices_payload
   \<and> dnsRecords (fst (loadDnsRecords_on (Inr \<lparr>success = False, data = [], response_message = None\<rparr>)
      (\<lparr>hook_loading = False, hook_error = None, dnsRecords = dnsRecords_payload\<rparr>,
       initialState\<lparr>services := services_payload\<rparr>))) = dnsRecords_payload"
proof -
  have low: "shouldSimulateError default_chance 0"
    by (simp add: shouldSimulateError_def default_chance_def)
  have s: "failed (mockApi_getServices 0)"
    by (simp add: mockApi_getServices_def mockApi_getServices_with_def low simulateError_def)
  have i: "failed (mockApi_getInvoices 0)"
    by (simp add: mockApi_getInvoices_def mockApi_getInvoices_with_def low simulateError_def)
  have d: "failed (Inr \<lparr>success = False, data = [] :: dns_record list, response_message = None\<rparr>)"
    by simp
  note x = thrown_failed [of NonError]
  note T = failed_call_keeps_loaded_data
    [OF x x s x x x x x i x d,
     where h = "\<lparr>hook_loading = False, hook_error = None\<rparr>"
       and st = "initialState\<lparr>services := services_payload\<rparr>"
       and hb = "\<lparr>hook_loading = False, hook_error = None, invoices = invoices_payload,
                  paymentMethods = []\<rparr>"
       and hdns = "\<lparr>hook_loading = False, hook_error = None, dnsRecords = dnsRecords_payload\<rparr>"]
  from T have 1: "\<exists>e. loadServices_on (mockApi_getServices 0)
      (\<lparr>hook_loading = False, hook_error = None\<rparr>,
       initialState\<lparr>services := services_payload\<rparr>) =
      (\<lparr>hook_loading = False, hook_error = None\<rparr>\<lparr>hook_loading := False, hook_error := Some e\<rparr>,
       initialState\<lparr>services := services_payload\<rparr>)"
    by blast
  from T have 2: "invoices (fst (loadInvoices_on (mockApi_getInvoices 0)
      (\<lparr>hook_loading = False, hook_error = None, invoices = invoices_payload,
        paymentMethods = []\<rparr>,
       initialState\<lparr>services := services_payload\<rparr>))) =
      invoices \<lparr>hook_loading = False, hook_error = None, invoices = invoices_payload,
        paymentMethods = []\<rparr>"
    by blast
  from T have 3: "dnsRecords (fst (loadDnsRecords_on
      (Inr \<lparr>success = False, data = [], response_message = None\<rparr>)
      (\<lparr>hook_loading = False, hook_error = None, dnsRecords = dnsRecords_payload\<rparr>,
       initialState\<lparr>services := services_payload\<rparr>))) =
      dnsRecords \<lparr>hook_loading = False, hook_error = None, dnsRecords = dnsRecords_payload\<rparr>"
    by blast
  from 1 have "snd (loadServices_on (mockApi_getServices 0)
      (\<lparr>hook_loading = False, hook_error = None\<rparr>,
       initialState\<lparr>services := services_payload\<rparr>)) =
     initialState\<lparr>services := services_payload\<rparr>"
    by auto
  with 2 3 show ?thesis by simp
qed

lemma endpoints_certain_failure:
  assumes "draw < 1"
  shows "mockApi_login_with 1 draw now_ms em pw =
      Inl (Error (lit ''Network error. Please try again.''))"
    and "mockApi_getProfile_with 1 draw = Inl (Error (lit ''Failed to load profile''))"
    and "mockApi_updateProfile_with 1 draw now profileData =
      Inl (Error (lit ''Failed to update profile''))"
    and "mockApi_getServices_with 1 draw = Inl (Error (lit ''Failed to load services''))"
    and "mockApi_toggleAutoRenew_with 1 draw now sid flag =
      Inl (Error (lit ''Failed to update auto-renewal setting''))"
    and "mockApi_getSupportTickets_with 1 draw =
      Inl (Error (lit ''Failed to load support tickets''))"
    and "mockApi_createSupportTicket_with 1 draw rid now1 now2 now3 td =
      Inl (Error (lit ''Failed to create support ticket''))"
    and "mockApi_getNotifications_with 1 draw =
      Inl (Error (lit ''Failed to load notifications''))"
    and "mockApi_getInvoices_with 1 draw = Inl (Error (lit ''Failed to load invoices''))"
    and "mockApi_getPaymentMethods_with 1 draw =
      Inl (Error (lit ''Failed to load payment methods''))"
    and "mockApi_getDnsRecords_with 1 draw domainId =
      Inl (Error (lit ''Failed to load DNS records''))"
  using certain_failure [OF assms]
  by (simp_all add: mockApi_login_with_def mockApi_getProfile_with_def
      mockApi_updateProfile_with_def mockApi_getServices_with_def
      mockApi_toggleAutoRenew_with_def mockApi_getSupportTickets_with_def
      mockApi_createSupportTicket_with_def mockApi_getNotifications_with_def
      mockApi_getInvoices_with_def mockApi_getPaymentMethods_with_def
      mockApi_getDnsRecords_with_def simulateError_def)

text \<open>
  C6. With the failure probability of an endpoint set to \<open>1.0\<close>, every draw below \<open>1\<close>, so
  every draw of \<open>Math.random()\<close>, makes the endpoint throw its error, and the hook that called
  it ends with that error's message in its error state (and, where it has thrown the error
  on, with the error as its outcome). \<open>login\<close> has no calling hook; it throws all the same.
\<close>

theorem certain_failure_reaches_hook:
  assumes "draw < 1"
  shows
    "shouldSimulateError 1 draw
   \<and> mockApi_login_with 1 draw now_ms em pw =
       Inl (Error (lit ''Network error. Please try again.''))
   \<and> mockApi_getProfile_with 1 draw = Inl (Error (lit ''Failed to load profile''))
   \<and> mockApi_updateProfile_with 1 draw now profileData =
       Inl (Error (lit ''Failed to update profile''))
   \<and> mockApi_getServices_with 1 draw = Inl (Error (lit ''Failed to load services''))
   \<and> mockApi_toggleAutoRenew_with 1 draw now sid flag =
       Inl (Error (lit ''Failed to update auto-renewal setting''))
   \<and> mockApi_getSupportTickets_with 1 draw =
       Inl (Error (lit ''Failed to load support tickets''))
   \<and> mockApi_createSupportTicket_with 1 draw rid now1 now2 now3 td =
       Inl (Error (lit ''Failed to create support ticket''))
   \<and> mockApi_getNotifications_with 1 draw =
       Inl (Error (lit ''Failed to load notifications''))
   \<and> mockApi_getInvoices_with 1 draw = Inl (Error (lit ''Failed to load invoices''))
   \<and> mockApi_getPaymentMethods_with 1 draw =
       Inl (Error (lit ''Failed to load payment methods''))
   \<and> mockApi_getDnsRecords_with 1 draw domainId =
       Inl (Error (lit ''Failed to load DNS records''))
   \<and> loadProfile_on (mockApi_getProfile_with 1 draw) (h, st) =
       (h\<lparr>hook_loading := False, hook_error := Some (lit ''Failed to load profile'')\<rparr>, st)
   \<and> updateProfile_on (mockApi_updateProfile_with 1 draw now profileData) (h, st) =
       (Inl (Error (lit ''Failed to update profile'')),
        h\<lparr>hook_loading := False, hook_error := Some (lit ''Failed to update profile'')\<rparr>, st)
   \<and> loadServices_on (mockApi_getServices_with 1 draw) (h, st) =
       (h\<lparr>hook_loading := False, hook_error := Some (lit ''Failed to load services'')\<rparr>, st)
   \<and> toggleAutoRenew_on (mockApi_toggleAutoRenew_with 1 draw now sid flag) rendered sid flag
         (h, st) =
       (Inl (Error (lit ''Failed to update auto-renewal setting'')),
        h\<lparr>hook_error := Some (lit ''Failed to update auto-renewal setting'')\<rparr>, st)
   \<and> loadTickets_on (mockApi_getSupportTickets_with 1 draw) (h, st) =
       (h\<lparr>hook_loading := False,
          hook_error := Some (lit ''Failed to load support tickets'')\<rparr>, st)
   \<and> createTicket_on (mockApi_createSupportTicket_with 1 draw rid now1 now2 now3 td)
         rid' now4 now5 (h, st) =
       (Inl (Error (lit ''Failed to create support ticket'')),
        h\<lparr>hook_loading := False,
          hook_error := Some (lit ''Failed to create support ticket'')\<rparr>, st)
   \<and> loadNotifications_on (mockApi_getNotifications_with 1 draw) (h, st) =
       (h\<lparr>hook_loading := False,
          hook_error := Some (lit ''Failed to load notifications'')\<rparr>, st)
   \<and> loadInvoices_on (mockApi_getInvoices_with 1 draw) (hb, st) =
       (hb\<lparr>hook_loading := False, hook_error := Some (lit ''Failed to load invoices'')\<rparr>, st)
   \<and> loadPaymentMethods_on (mockApi_getPaymentMethods_with 1 draw) (hb, st) =
       (hb\<lparr>hook_loading := False,
           hook_error := Some (lit ''Failed to load payment methods'')\<rparr>, st)
   \<and> loadDnsRecords_on (mockApi_getDnsRecords_with 1 draw domainId) (hdns, st) =
       (hdns\<lparr>hook_loading := False,
             hook_error := Some (lit ''Failed to load DNS records'')\<rparr>, st)"
proof -
  note e = endpoints_certain_failure [OF assms]
  have hooks:
    "loadProfile_on (mockApi_getProfile_with 1 draw) (h, st) =
       (h\<lparr>hook_loading := False, hook_error := Some (lit ''Failed to load profile'')\<rparr>, st)"
    "updateProfile_on (mockApi_updateProfile_with 1 draw now profileData) (h, st) =
       (Inl (Error (lit ''Failed to update profile'')),
        h\<lparr>hook_loading := False, hook_error := Some (lit ''Failed to update profile'')\<rparr>, st)"
    "loadServices_on (mockApi_getServices_with 1 draw) (h, st) =
       (h\<lparr>hook_loading := False, hook_error := Some (lit ''Failed to load services'')\<rparr>, st)"
    "loadTickets_on (mockApi_getSupportTickets_with 1 draw) (h, st) =
       (h\<lparr>hook_loading := False,
          hook_error := Some (lit ''Failed to load support tickets'')\<rparr>, st)"
    "createTicket_on (mockApi_createSupportTicket_with 1 draw rid now1 now2 now3 td)
         rid' now4 now5 (h, st) =
       (Inl (Error (lit ''Failed to create support ticket'')),
        h\<lparr>hook_loading := False,
          hook_error := Some (lit ''Failed to create support ticket'')\<rparr>, st)"
    "loadNotifications_on (mockApi_getNotifications_with 1 draw) (h, st) =
       (h\<lparr>hook_loading := False,
          hook_error := Some (lit ''Failed to load notifications'')\<rparr>, st)"
    "loadInvoices_on (mockApi_getInvoices_with 1 draw) (hb, st) =
       (hb\<lparr>hook_loading := False, hook_error := Some (lit ''Failed to load invoices'')\<rparr>, st)"
    "loadPaymentMethods_on (mockApi_getPaymentMethods_with 1 draw) (hb, st) =
       (hb\<lparr>hook_loading := False,
           hook_error := Some (lit ''Failed to load payment methods'')\<rparr>, st)"
    "loadDnsRecords_on (mockApi_getDnsRecords_with 1 draw domainId) (hdns, st) =
       (hdns\<lparr>hook_loading := False,
             hook_error := Some (lit ''Failed to load DNS records'')\<rparr>, st)"
    by (simp_all only: e loadProfile_on_def updateProfile_on_def loadServices_on_def
        loadTickets_on_def createTicket_on_def loadNotifications_on_def loadInvoices_on_def
        loadPaymentMethods_on_def loadDnsRecords_on_def fetch_thrown)
  have toggle:
    "toggleAutoRenew_on (mockApi_toggleAutoRenew_with 1 draw now sid flag) rendered sid flag
         (h, st) =
       (Inl (Error (lit ''Failed to update auto-renewal setting'')),
        h\<lparr>hook_error := Some (lit ''Failed to update auto-renewal setting'')\<rparr>, st)"
    by (simp add: e toggleAutoRenew_on_def setError_def errorMessage_def)
  from certain_failure [OF assms] e hooks toggle show ?thesis
    by (intro conjI)
qed

theorem certain_failure_reaches_hook_witness:
  "shouldSimulateError 1 (99 / 100)
   \<and> mockApi_getServices_with 1 (99 / 100) = Inl (Error (lit ''Failed to load services''))
   \<and> loadServices_on (mockApi_getServices_with 1 (99 / 100))
       (\<lparr>hook_loading = False, hook_error = None\<rparr>, initialState) =
       (\<lparr>hook_loading = False, hook_error = Some (lit ''Failed to load services'')\<rparr>,
        initialState)"
proof -
  have d: "(99 / 100 :: real) < 1" by simp
  note T = certain_failure_reaches_hook
    [OF d, where h = "\<lparr>hook_loading = False, hook_error = None\<rparr>" and st = initialState]
  from T have "shouldSimulateError 1 (99 / 100)"
    and "mockApi_getServices_with 1 (99 / 100) = Inl (Error (lit ''Failed to load services''))"
    and "loadServices_on (mockApi_getServices_with 1 (99 / 100))
       (\<lparr>hook_loading = False, hook_error = None\<rparr>, initialState) =
       (\<lparr>hook_loading = False, hook_error = None\<rparr>
          \<lparr>hook_loading := False, hook_error := Some (lit ''Failed to load services'')\<rparr>,
        initialState)"
    by blast+
  then show ?thesis by simp
qed

section \<open>What the mock API hands back\<close>

text \<open>
  C8, as stated, fails: an injected failure is not delivered as a returned value. With a
  draw of \<open>0\<close> the call of \<open>getServices\<close> rejects with a thrown \<open>Error\<close>; and the object that
  \<open>logout\<close> resolves with has \<open>success\<close> true and a message, but no data.
\<close>

theorem injected_failure_is_thrown:
  "mockApi_getServices 0 = Inl (Error (lit ''Failed to load services''))
   \<and> isl (mockApi_getServices 0)
   \<and> mockApi_logout =
       Inr \<lparr>logout_success = True, logout_message = lit ''Logged out successfully''\<rparr>"
  by (simp add: mockApi_getServices_def mockApi_getServices_with_def shouldSimulateError_def
      default_chance_def simulateError_def mockApi_logout_def simulateRequest_def)

text \<open>
  C8, amended. Every operation of the mock API surface either rejects, throwing an \<open>Error\<close>,
  or resolves with an object. The operations that inject failures reject exactly when the
  draw is below their failure probability, and otherwise resolve; \<open>logout\<close> and
  \<open>markNotificationRead\<close> always resolve. The operations with data resolve with \<open>success\<close>
  true and the data (some with a message), \<open>logout\<close> with \<open>success\<close> true and a message, and
  only \<open>login\<close>, for a wrong pair, with \<open>success\<close> false, a message and errors.
\<close>

theorem mockApi_rejects_or_resolves:
  "isl (mockApi_login draw now_ms em pw) = shouldSimulateError login_chance draw
   \<and> (mockApi_login draw now_ms em pw = Inl (Error (lit ''Network error. Please try again.''))
      \<or> (\<exists>d. mockApi_login draw now_ms em pw =
                Inr (Login_data \<lparr>success = True, data = d, response_message = None\<rparr>))
      \<or> mockApi_login draw now_ms em pw =
          Inr (Login_failure
                 \<lparr>failure_success = False, failure_message = lit ''Invalid email or password'',
                  errors = [lit ''Invalid credentials'']\<rparr>))
   \<and> mockApi_logout =
       Inr \<lparr>logout_success = True, logout_message = lit ''Logged out successfully''\<rparr>
   \<and> error_or_data (mockApi_getProfile draw)
   \<and> isl (mockApi_getProfile draw) = shouldSimulateError default_chance draw
   \<and> error_or_data (mockApi_updateProfile draw now profileData)
   \<and> isl (mockApi_updateProfile draw now profileData) = shouldSimulateError default_chance draw
   \<and> error_or_data (mockApi_getServices draw)
   \<and> isl (mockApi_getServices draw) = shouldSimulateError default_chance draw
   \<and> error_or_data (mockApi_toggleAutoRenew draw now sid flag)
   \<and> isl (mockApi_toggleAutoRenew draw now sid flag) = shouldSimulateError default_chance draw
   \<and> error_or_data (mockApi_getSupportTickets draw)
   \<and> isl (mockApi_getSupportTickets draw) = shouldSimulateError default_chance draw
   \<and> error_or_data (mockApi_createSupportTicket draw rid now1 now2 now3 td)
   \<and> isl (mockApi_createSupportTicket draw rid now1 now2 now3 td) =
       shouldSimulateError default_chance draw
   \<and> error_or_data (mockApi_getNotifications draw)
   \<and> isl (mockApi_getNotifications draw) = shouldSimulateError default_chance draw
   \<and> error_or_data (mockApi_markNotificationRead nid)
   \<and> \<not> isl (mockApi_markNotificationRead nid)
   \<and> error_or_data (mockApi_getInvoices draw)
   \<and> isl (mockApi_getInvoices draw) = shouldSimulateError default_chance draw
   \<and> error_or_data (mockApi_getPaymentMethods draw)
   \<and> isl (mockApi_getPaymentMethods draw) = shouldSimulateError default_chance draw
   \<and> error_or_data (mockApi_getDnsRecords draw domainId)
   \<and> isl (mockApi_getDnsRecords draw domainId) = shouldSimulateError default_chance draw"
proof -
  have login1: "isl (mockApi_login draw now_ms em pw) = shouldSimulateError login_chance draw"
    by (simp add: mockApi_login_def mockApi_login_with_def simulateError_def simulateRequest_def)
  have login2: "mockApi_login draw now_ms em pw =
        Inl (Error (lit ''Network error. Please try again.''))
      \<or> (\<exists>d. mockApi_login draw now_ms em pw =
                Inr (Login_data \<lparr>success = True, data = d, response_message = None\<rparr>))
      \<or> mockApi_login draw now_ms em pw =
          Inr (Login_failure
                 \<lparr>failure_success = False, failure_message = lit ''Invalid email or password'',
                  errors = [lit ''Invalid credentials'']\<rparr>)"
    by (simp add: mockApi_login_def mockApi_login_with_def simulateError_def simulateRequest_def)
  have out: "mockApi_logout =
       Inr \<lparr>logout_success = True, logout_message = lit ''Logged out successfully''\<rparr>"
    by (simp add: mockApi_logout_def simulateRequest_def)
  have rd: "error_or_data (mockApi_markNotificationRead nid)"
    "\<not> isl (mockApi_markNotificationRead nid)"
    by (simp_all add: mockApi_markNotificationRead_def simulateRequest_def)
  have eps:
    "error_or_data (mockApi_getProfile draw)"
    "isl (mockApi_getProfile draw) = shouldSimulateError default_chance draw"
    "error_or_data (mockApi_updateProfile draw now profileData)"
    "isl (mockApi_updateProfile draw now profileData) = shouldSimulateError default_chance draw"
    "error_or_data (mockApi_getServices draw)"
    "isl (mockApi_getServices draw) = shouldSimulateError default_chance draw"
    "error_or_data (mockApi_toggleAutoRenew draw now sid flag)"
    "isl (mockApi_toggleAutoRenew draw now sid flag) = shouldSimulateError default_chance draw"
    "error_or_data (mockApi_getSupportTickets draw)"
    "isl (mockApi_getSupportTickets draw) = shouldSimulateError default_chance draw"
    "error_or_data (mockApi_createSupportTicket draw rid now1 now2 now3 td)"
    "isl (mockApi_createSupportTicket draw rid now1 now2 now3 td) =
       shouldSimulateError default_chance draw"
    "error_or_data (mockApi_getNotifications draw)"
    "isl (mockApi_getNotifications draw) = shouldSimulateError default_chance draw"
    "error_or_data (mockApi_getInvoices draw)"
    "isl (mockApi_getInvoices draw) = shouldSimulateError default_chance draw"
    "error_or_data (mockApi_getPaymentMethods draw)"
    "isl (mockApi_getPaymentMethods draw) = shouldSimulateError default_chance draw"
    "error_or_data (mockApi_getDnsRecords draw domainId)"
    "isl (mockApi_getDnsRecords draw domainId) = shouldSimulateError default_chance draw"
    by (simp_all add: mockApi_getProfile_def mockApi_getProfile_with_def
        mockApi_updateProfile_def mockApi_updateProfile_with_def
        mockApi_getServices_def mockApi_getServices_with_def
        mockApi_toggleAutoRenew_def mockApi_toggleAutoRenew_with_def
        mockApi_getSupportTickets_def mockApi_getSupportTickets_with_def
        mockApi_createSupportTicket_def mockApi_createSupportTicket_with_def
        mockApi_getNotifications_def mockApi_getNotifications_with_def
        mockApi_getInvoices_def mockApi_getInvoices_with_def
        mockApi_getPaymentMethods_def mockApi_getPaymentMethods_with_def
        mockApi_getDnsRecords_def mockApi_getDnsRecords_with_def
        simulateError_def simulateRequest_def Let_def)
  from login1 login2 out rd eps show ?thesis
    by (intro conjI)
qed

theorem mockApi_rejects_or_resolves_witness:
  "isl (mockApi_getServices 0) \<and> \<not> isl (mockApi_getServices (1 / 2))
   \<and> error_or_data (mockApi_getServices (1 / 2))
   \<and> isl (mockApi_login 0 1753430400000 (lit ''john.doe@example.com'') (lit ''password123''))"
proof -
  have lo: "shouldSimulateError default_chance 0" "shouldSimulateError login_chance 0"
    by (simp_all add: shouldSimulateError_def default_chance_def login_chance_def)
  have hi: "\<not> shouldSimulateError default_chance (1 / 2)"
    by (simp add: shouldSimulateError_def default_chance_def)
  from mockApi_rejects_or_resolves [of 0 1753430400000 "lit ''john.doe@example.com''"
      "lit ''password123''"] lo
  have a: "isl (mockApi_getServices 0)"
    and c: "isl (mockApi_login 0 1753430400000 (lit ''john.doe@example.com'')
        (lit ''password123''))"
    by blast+
  from mockApi_rejects_or_resolves [of "1 / 2"] hi
  have b: "\<not> isl (mockApi_getServices (1 / 2))" "error_or_data (mockApi_getServices (1 / 2))"
    by blast+
  from a b c show ?thesis by blast
qed

end
